theory Spec2Isabelle
  imports Main "HOL-Library.Sublist"
begin

section \<open>Python values, exceptions and string operations\<close>

text \<open>
  The development embeds \<^verbatim>\<open>canopycover/terra_canopycover.py\<close>. Exceptions are values:
  a computation that raises yields \<open>Inl e\<close>. The builtin exceptions the module itself can
  raise are constructors; \<open>Raised\<close> stands for whatever a library call raises.
\<close>

datatype error = TypeError | KeyError | IndexError | ValueError | Raised string

text \<open>\<^verbatim>\<open>xs[i]\<close> on a Python list, for an index \<open>i \<ge> 0\<close>.\<close>

definition py_index :: "'a list \<Rightarrow> nat \<Rightarrow> error + 'a" where
  "py_index xs i = (if i < length xs then Inr (xs ! i) else Inl IndexError)"

text \<open>\<^verbatim>\<open>d[k]\<close> on a Python dict, kept as an association list.\<close>

definition py_getitem :: "('k \<times> 'v) list \<Rightarrow> 'k \<Rightarrow> error + 'v" where
  "py_getitem d k = (case map_of d k of None \<Rightarrow> Inl KeyError | Some v \<Rightarrow> Inr v)"

text \<open>\<^verbatim>\<open>sep.join(xs)\<close>.\<close>

fun py_join :: "string \<Rightarrow> string list \<Rightarrow> string" where
  "py_join sep [] = []"
| "py_join sep [x] = x"
| "py_join sep (x # y # ys) = x @ sep @ py_join sep (y # ys)"

text \<open>
  \<^verbatim>\<open>s.replace(old, new)\<close>: a scan from the left that replaces every occurrence of
  \<open>old\<close>, without overlaps. With an empty \<open>old\<close> Python puts \<open>new\<close> before every
  character and at the end.
\<close>

function replace_scan :: "string \<Rightarrow> string \<Rightarrow> string \<Rightarrow> string" where
  "replace_scan old new [] = []"
| "replace_scan old new (c # cs) =
     (if old \<noteq> [] \<and> prefix old (c # cs)
      then new @ replace_scan old new (drop (length old) (c # cs))
      else c # replace_scan old new cs)"
  by pat_completeness auto
termination
  by (relation "measure (\<lambda>(old, new, s). length s)") (auto simp: neq_Nil_conv)

definition py_replace :: "string \<Rightarrow> string \<Rightarrow> string \<Rightarrow> string" where
  "py_replace s old new =
     (if old = [] then new @ concat (map (\<lambda>c. c # new) s) else replace_scan old new s)"

text \<open>
  \<^verbatim>\<open>s.split(sep)\<close>: the pieces of \<open>s\<close> between the occurrences of \<open>sep\<close>, found
  from the left; an empty separator raises ValueError.
\<close>

function split_scan :: "string \<Rightarrow> string \<Rightarrow> string \<Rightarrow> string list" where
  "split_scan sep cur [] = [cur]"
| "split_scan sep cur (c # cs) =
     (if sep \<noteq> [] \<and> prefix sep (c # cs)
      then cur # split_scan sep [] (drop (length sep) (c # cs))
      else split_scan sep (cur @ [c]) cs)"
  by pat_completeness auto
termination
  by (relation "measure (\<lambda>(sep, cur, s). length s)") (auto simp: neq_Nil_conv)

definition py_split :: "string \<Rightarrow> string \<Rightarrow> error + string list" where
  "py_split s sep = (if sep = [] then Inl ValueError else Inr (split_scan sep [] s))"

text \<open>\<^verbatim>\<open>s.endswith(t)\<close>.\<close>

definition endswith :: "string \<Rightarrow> string \<Rightarrow> bool" where
  "endswith s t = suffix t s"

text \<open>\<^verbatim>\<open>str(n)\<close> for an integer, and for a tuple of integers such as an array shape.\<close>

definition digit_char :: "nat \<Rightarrow> char" where
  "digit_char d = ''0123456789'' ! d"

function str_nat :: "nat \<Rightarrow> string" where
  "str_nat n = (if n < 10 then [digit_char n] else str_nat (n div 10) @ [digit_char (n mod 10)])"
  by pat_completeness auto
termination
  by (relation "measure id") auto

definition str_int :: "int \<Rightarrow> string" where
  "str_int i = (if i < 0 then CHR ''-'' # str_nat (nat (- i)) else str_nat (nat i))"

definition str_tuple :: "nat list \<Rightarrow> string" where
  "str_tuple dims =
     (case dims of
        [d] \<Rightarrow> ''('' @ str_nat d @ '',)''
      | _ \<Rightarrow> ''('' @ py_join '', '' (map str_nat dims) @ '')'')"

definition newline :: string where
  "newline = [CHR 0x0A]"

text \<open>
  The values held by the traits dictionary: strings, and the empty list that
  \<^verbatim>\<open>get_traits_table\<close> puts under two keys. \<open>py_str\<close> is \<^verbatim>\<open>str\<close>.
\<close>

datatype pyval = PyStr string | PyEmptyList

fun py_str :: "pyval \<Rightarrow> string" where
  "py_str (PyStr s) = s"
| "py_str PyEmptyList = ''[]''"

text \<open>
  A decoded JSON document; \<open>'f\<close> is the type of Python floats, which the module only
  passes on. \<open>subscript_key\<close> is \<^verbatim>\<open>v["k"]\<close> and \<open>subscript_int\<close> is \<^verbatim>\<open>v[i]\<close> for
  \<open>i \<ge> 0\<close>, with the exception Python raises for each kind of value.
\<close>

datatype 'f json =
  JNull | JBool bool | JNum 'f | JStr string | JArr "'f json list" | JObj "(string \<times> 'f json) list"

fun subscript_key :: "'f json \<Rightarrow> string \<Rightarrow> error + 'f json" where
  "subscript_key (JObj kvs) k = py_getitem kvs k"
| "subscript_key _ k = Inl TypeError"

fun subscript_int :: "'f json \<Rightarrow> nat \<Rightarrow> error + 'f json" where
  "subscript_int (JArr xs) i = py_index xs i"
| "subscript_int (JStr s) i = (if i < length s then Inr (JStr [s ! i]) else Inl IndexError)"
| "subscript_int (JObj kvs) i = Inl KeyError"
| "subscript_int _ i = Inl TypeError"

section \<open>The traits table\<close>

text \<open>\<^verbatim>\<open>get_traits_table\<close> (lines 21-35): the field names and the dictionary of defaults.\<close>

definition get_traits_table :: "string list \<times> (string \<rightharpoonup> pyval)" where
  "get_traits_table =
     (let fields = [''local_datetime'', ''canopy_cover'', ''access_level'', ''species'', ''site'',
                    ''citation_author'', ''citation_year'', ''citation_title'', ''method''];
          traits = [''local_datetime'' \<mapsto> PyStr [],
                    ''canopy_cover'' \<mapsto> PyEmptyList,
                    ''access_level'' \<mapsto> PyStr ''2'',
                    ''species'' \<mapsto> PyStr ''Sorghum bicolor'',
                    ''site'' \<mapsto> PyEmptyList,
                    ''citation_author'' \<mapsto> PyStr (CHR 0x22 # ''Zongyang, Li'' @ [CHR 0x22]),
                    ''citation_year'' \<mapsto> PyStr ''2016'',
                    ''citation_title'' \<mapsto> PyStr ''Maricopa Field Station Data and Metadata'',
                    ''method'' \<mapsto> PyStr ''Canopy Cover Estimation from RGB images'']
      in (fields, traits))"

text \<open>
  A list display \<^verbatim>\<open>[traits[k1], ..., traits[kn]]\<close>: the lookups run from the left and the
  first missing key raises KeyError.
\<close>

fun lookup_all :: "(string \<rightharpoonup> pyval) \<Rightarrow> string list \<Rightarrow> error + pyval list" where
  "lookup_all d [] = Inr []"
| "lookup_all d (k # ks) =
     (case d k of
        None \<Rightarrow> Inl KeyError
      | Some v \<Rightarrow> (case lookup_all d ks of Inl e \<Rightarrow> Inl e | Inr vs \<Rightarrow> Inr (v # vs)))"

text \<open>\<^verbatim>\<open>generate_traits_list\<close> (lines 38-51).\<close>

definition generate_traits_list :: "(string \<rightharpoonup> pyval) \<Rightarrow> error + pyval list" where
  "generate_traits_list traits =
     lookup_all traits [''local_datetime'', ''canopy_cover'', ''access_level'', ''species'', ''site'',
                        ''citation_author'', ''citation_year'', ''citation_title'', ''method'']"

section \<open>The extractor's surroundings\<close>

text \<open>
  The \<^verbatim>\<open>resource\<close> dictionary the host hands over, with the entries the module reads:
  \<^verbatim>\<open>resource['name']\<close>, \<^verbatim>\<open>resource['id']\<close>, \<^verbatim>\<open>resource['local_paths']\<close> and
  \<^verbatim>\<open>resource['parent']['id']\<close>.
\<close>

record resource =
  res_name :: string
  res_id :: string
  res_local_paths :: "string list"
  res_parent_id :: string

text \<open>The attributes of \<^verbatim>\<open>self\<close> that \<^verbatim>\<open>process_message\<close> reads.\<close>

record extractor =
  bety_key :: string
  extractor_info :: string

text \<open>A positional argument of a logging call: the resource or a message.\<close>

datatype logarg = Res resource | Msg string

datatype log_entry =
  StartMessage "logarg list" | Info "logarg list" | Err "logarg list" | EndMessage "logarg list"

text \<open>
  The arguments of one call of \<^verbatim>\<open>create_datapoint_with_dependencies\<close> (lines 136-138),
  the two entries of \<^verbatim>\<open>dpmetadata\<close> included. The connector is passed through
  unchanged and left out.
\<close>

record 'f datapoint =
  dp_host :: string
  dp_secret_key :: string
  dp_stream :: string
  dp_latlon :: "'f json \<times> 'f json"
  dp_start_time :: string
  dp_end_time :: string
  dp_source :: string
  dp_canopy_cover :: 'f
  dp_filter_date :: string

text \<open>The content dictionary given to \<^verbatim>\<open>build_metadata\<close> (lines 147-151).\<close>

record summary =
  plots_processed :: int
  plots_skipped :: int
  betydb_link :: string

text \<open>
  Everything \<^verbatim>\<open>process_message\<close> calls outside this module is a parameter: the methods
  inherited from \<^verbatim>\<open>TerrarefExtractor\<close>, the \<^verbatim>\<open>pyclowder\<close>, \<^verbatim>\<open>terrautils\<close>, \<^verbatim>\<open>terraref\<close>,
  \<^verbatim>\<open>numpy\<close> and \<^verbatim>\<open>json\<close> functions, and \<^verbatim>\<open>open\<close>. A call either returns or raises.
  The inherited methods receive their positional arguments as a list, so that a call with
  the wrong number of arguments is an input they can refuse. \<open>'px\<close> is the type of pixel
  arrays, \<open>'f\<close> of floats, \<open>'m\<close> of metadata documents. \<open>str_float\<close> is \<^verbatim>\<open>str\<close> on a
  float. Writing to and closing the open file are taken to succeed.
\<close>

record ('px, 'f, 'm) env =
  start_message :: "logarg list \<Rightarrow> error option"
  end_message :: "logarg list \<Rightarrow> error option"
  log_info :: "logarg list \<Rightarrow> error option"
  log_error :: "logarg list \<Rightarrow> error option"
  get_info :: "string \<Rightarrow> string \<Rightarrow> string \<Rightarrow> error + (string \<times> string) list"
  open_file :: "string \<Rightarrow> error option"
  get_site_boundaries :: "string \<Rightarrow> string \<Rightarrow> error + (string \<times> string) list"
  clip_raster :: "string \<Rightarrow> string \<Rightarrow> error + 'px"
  shape :: "'px \<Rightarrow> nat list"
  rollaxis :: "'px \<Rightarrow> nat \<Rightarrow> nat \<Rightarrow> 'px"
  calculate_canopycover :: "'px \<Rightarrow> error + 'f"
  str_float :: "'f \<Rightarrow> string"
  centroid_from_geojson :: "string \<Rightarrow> error + string"
  json_loads :: "string \<Rightarrow> error + 'f json"
  create_datapoint_with_dependencies :: "'f datapoint \<Rightarrow> error option"
  submit_traits :: "string \<Rightarrow> string \<Rightarrow> error option"
  build_metadata :: "string \<Rightarrow> string \<Rightarrow> string \<Rightarrow> summary \<Rightarrow> string \<Rightarrow> error + 'm"
  upload_metadata :: "string \<Rightarrow> string \<Rightarrow> string \<Rightarrow> 'm \<Rightarrow> error option"

text \<open>
  What a run leaves behind, in the order it happened, together with the two local
  variables the loop updates: the calls of inherited methods that returned, the paths
  opened for writing, the strings written to \<^verbatim>\<open>csv_file\<close>, the number of \<^verbatim>\<open>close\<close>
  calls, the data-point calls made, the bulk submissions and the metadata uploads.
\<close>

record ('f, 'm) state =
  logged :: "log_entry list"
  opened :: "string list"
  csv_file :: "string list"
  closes :: nat
  datapoints :: "'f datapoint list"
  submitted :: "(string \<times> string) list"
  uploaded :: "(string \<times> 'm) list"
  traits :: "string \<rightharpoonup> pyval"
  successful_plots :: int

definition initial :: "('f, 'm) state" where
  "initial = \<lparr>logged = [], opened = [], csv_file = [], closes = 0, datapoints = [],
              submitted = [], uploaded = [], traits = Map.empty, successful_plots = 0\<rparr>"

section \<open>Statements as state transformers\<close>

text \<open>
  A statement maps the state to an outcome and the state it leaves: what was written
  before an exception stays written.
\<close>

type_synonym ('a, 's) prog = "'s \<Rightarrow> (error + 'a) \<times> 's"

definition returns :: "'a \<Rightarrow> ('a, 's) prog" where
  "returns x = (\<lambda>s. (Inr x, s))"

definition lift :: "error + 'a \<Rightarrow> ('a, 's) prog" where
  "lift r = (\<lambda>s. (r, s))"

definition do_then :: "('a, 's) prog \<Rightarrow> ('a \<Rightarrow> ('b, 's) prog) \<Rightarrow> ('b, 's) prog" where
  "do_then m f = (\<lambda>s. case m s of (Inl e, s') \<Rightarrow> (Inl e, s') | (Inr x, s') \<Rightarrow> f x s')"

definition modify :: "('s \<Rightarrow> 's) \<Rightarrow> (unit, 's) prog" where
  "modify f = (\<lambda>s. (Inr (), f s))"

text \<open>\<^verbatim>\<open>try: body except: handler\<close> with a bare \<^verbatim>\<open>except\<close>, which catches everything.\<close>

definition try_except :: "('a, 's) prog \<Rightarrow> ('a, 's) prog \<Rightarrow> ('a, 's) prog" where
  "try_except body handler =
     (\<lambda>s. case body s of (Inl e, s') \<Rightarrow> handler s' | (Inr x, s') \<Rightarrow> (Inr x, s'))"

text \<open>A call whose result is not used: it raises, or its effect is recorded.\<close>

definition call :: "error option \<Rightarrow> ('s \<Rightarrow> 's) \<Rightarrow> (unit, 's) prog" where
  "call outcome effect = (\<lambda>s. case outcome of Some e \<Rightarrow> (Inl e, s) | None \<Rightarrow> (Inr (), effect s))"

text \<open>
  A remote call: the call made is recorded whether it returns or raises, since what
  reached the remote side before an exception is not known here.
\<close>

definition attempt :: "error option \<Rightarrow> ('s \<Rightarrow> 's) \<Rightarrow> (unit, 's) prog" where
  "attempt outcome effect =
     (\<lambda>s. case outcome of Some e \<Rightarrow> (Inl e, effect s) | None \<Rightarrow> (Inr (), effect s))"

section \<open>The methods and calls of \<^verbatim>\<open>process_message\<close>\<close>

definition self_start_message :: "('px, 'f, 'm) env \<Rightarrow> logarg list \<Rightarrow> (unit, ('f, 'm) state) prog" where
  "self_start_message env args =
     call (start_message env args) (\<lambda>s. s\<lparr>logged := logged s @ [StartMessage args]\<rparr>)"

definition self_end_message :: "('px, 'f, 'm) env \<Rightarrow> logarg list \<Rightarrow> (unit, ('f, 'm) state) prog" where
  "self_end_message env args =
     call (end_message env args) (\<lambda>s. s\<lparr>logged := logged s @ [EndMessage args]\<rparr>)"

definition self_log_info :: "('px, 'f, 'm) env \<Rightarrow> logarg list \<Rightarrow> (unit, ('f, 'm) state) prog" where
  "self_log_info env args =
     call (log_info env args) (\<lambda>s. s\<lparr>logged := logged s @ [Info args]\<rparr>)"

definition self_log_error :: "('px, 'f, 'm) env \<Rightarrow> logarg list \<Rightarrow> (unit, ('f, 'm) state) prog" where
  "self_log_error env args =
     call (log_error env args) (\<lambda>s. s\<lparr>logged := logged s @ [Err args]\<rparr>)"

text \<open>\<^verbatim>\<open>csv_file = open(out_csv, 'w')\<close>: the file starts empty.\<close>

definition open_csv :: "('px, 'f, 'm) env \<Rightarrow> string \<Rightarrow> (unit, ('f, 'm) state) prog" where
  "open_csv env path =
     call (open_file env path) (\<lambda>s. s\<lparr>opened := opened s @ [path], csv_file := []\<rparr>)"

definition csv_write :: "string \<Rightarrow> (unit, ('f, 'm) state) prog" where
  "csv_write text = modify (\<lambda>s. s\<lparr>csv_file := csv_file s @ [text]\<rparr>)"

definition csv_close :: "(unit, ('f, 'm) state) prog" where
  "csv_close = modify (\<lambda>s. s\<lparr>closes := closes s + 1\<rparr>)"

section \<open>The plot loop\<close>

text \<open>
  How the \<^verbatim>\<open>try\<close> statement of lines 108-121 is left: by \<^verbatim>\<open>continue\<close>, or by falling
  through to line 123 with \<^verbatim>\<open>ccVal\<close> assigned.
\<close>

datatype 'f flow = Continue | Fallthrough 'f

text \<open>
  Lines 108-121. The body of the \<^verbatim>\<open>try\<close> reads \<^verbatim>\<open>resource['local_paths'][0]\<close>, clips,
  checks the number of dimensions, estimates, counts the plot and logs every tenth one;
  the handler logs with the message as its only argument and continues.
\<close>

definition clip_and_estimate ::
  "('px, 'f, 'm) env \<Rightarrow> resource \<Rightarrow> (string \<times> string) list \<Rightarrow> string \<Rightarrow> string
     \<Rightarrow> ('f flow, ('f, 'm) state) prog" where
  "clip_and_estimate env resource all_plots plotname bounds =
     try_except
       (do_then (lift (py_index (res_local_paths resource) 0)) (\<lambda>path.
        do_then (lift (clip_raster env path bounds)) (\<lambda>pxarray.
        if length (shape env pxarray) < 3
        then do_then (self_log_error env
                       [Res resource, Msg (''unexpected array shape for '' @ plotname @ '' (''
                                           @ str_tuple (shape env pxarray) @ '')'')])
               (\<lambda>_. returns Continue)
        else
        do_then (lift (calculate_canopycover env (rollaxis env pxarray 0 3))) (\<lambda>ccVal.
        do_then (modify (\<lambda>s. s\<lparr>successful_plots := successful_plots s + 1\<rparr>)) (\<lambda>_.
        do_then (\<lambda>s. (if successful_plots s mod 10 = 0
                       then self_log_info env
                              [Res resource, Msg (''processed '' @ str_int (successful_plots s) @ ''/''
                                                  @ str_int (int (length all_plots)) @ '' plots'')]
                       else returns ()) s) (\<lambda>_.
        returns (Fallthrough ccVal)))))))
       (do_then (self_log_error env [Msg (''error generating cc for '' @ plotname)])
          (\<lambda>_. returns Continue))"

text \<open>
  Lines 123-138: the three assignments to \<^verbatim>\<open>traits\<close>, the row written to the file, the
  centroid, and the data-point call with the coordinates \<^verbatim>\<open>(centroid_lonlat[1],
  centroid_lonlat[0])\<close>. None of it is inside a \<^verbatim>\<open>try\<close>.
\<close>

definition write_and_dispatch ::
  "('px, 'f, 'm) env \<Rightarrow> string \<Rightarrow> string \<Rightarrow> resource \<Rightarrow> string \<Rightarrow> string \<Rightarrow> string \<Rightarrow> 'f
     \<Rightarrow> (unit, ('f, 'm) state) prog" where
  "write_and_dispatch env host secret_key resource timestamp plotname bounds ccVal =
     do_then (modify (\<lambda>s. s\<lparr>traits := (traits s)(''canopy_cover'' \<mapsto> PyStr (str_float env ccVal))\<rparr>)) (\<lambda>_.
     do_then (modify (\<lambda>s. s\<lparr>traits := (traits s)(''site'' \<mapsto> PyStr plotname)\<rparr>)) (\<lambda>_.
     do_then (modify (\<lambda>s. s\<lparr>traits := (traits s)(''local_datetime'' \<mapsto> PyStr (timestamp @ ''T12:00:00''))\<rparr>)) (\<lambda>_.
     do_then (\<lambda>s. lift (generate_traits_list (traits s)) s) (\<lambda>trait_list.
     do_then (csv_write (py_join '','' (map py_str trait_list) @ newline)) (\<lambda>_.
     do_then (lift (centroid_from_geojson env bounds)) (\<lambda>geojson.
     do_then (lift (json_loads env geojson)) (\<lambda>doc.
     do_then (lift (subscript_key doc ''coordinates'')) (\<lambda>centroid_lonlat.
     let time_fmt = timestamp @ ''T12:00:00-07:00'';
         source = host @ (if endswith host ''/'' then [] else ''/'') @ ''files/'' @ res_id resource
     in
     do_then (lift (subscript_int centroid_lonlat 1)) (\<lambda>lat.
     do_then (lift (subscript_int centroid_lonlat 0)) (\<lambda>lon.
     let dp = \<lparr>dp_host = host, dp_secret_key = secret_key, dp_stream = ''Canopy Cover'',
                dp_latlon = (lat, lon), dp_start_time = time_fmt, dp_end_time = time_fmt,
                dp_source = source, dp_canopy_cover = ccVal, dp_filter_date = timestamp\<rparr>
     in attempt (create_datapoint_with_dependencies env dp)
          (\<lambda>s. s\<lparr>datapoints := datapoints s @ [dp]\<rparr>)))))))))))"

text \<open>One pass of the loop body, lines 105-138.\<close>

definition plot_iteration ::
  "('px, 'f, 'm) env \<Rightarrow> string \<Rightarrow> string \<Rightarrow> resource \<Rightarrow> string \<Rightarrow> (string \<times> string) list \<Rightarrow> string
     \<Rightarrow> (unit, ('f, 'm) state) prog" where
  "plot_iteration env host secret_key resource timestamp all_plots plotname =
     do_then (lift (py_getitem all_plots plotname)) (\<lambda>bounds.
     do_then (clip_and_estimate env resource all_plots plotname bounds) (\<lambda>flow.
     case flow of
       Continue \<Rightarrow> returns ()
     | Fallthrough ccVal \<Rightarrow>
         write_and_dispatch env host secret_key resource timestamp plotname bounds ccVal))"

text \<open>
  \<^verbatim>\<open>for plotname in all_plots\<close>: the dictionary is an association list and the loop runs
  over its keys in their order; an exception that leaves an iteration ends the loop.
\<close>

fun for_plots ::
  "('px, 'f, 'm) env \<Rightarrow> string \<Rightarrow> string \<Rightarrow> resource \<Rightarrow> string \<Rightarrow> (string \<times> string) list \<Rightarrow> string list
     \<Rightarrow> (unit, ('f, 'm) state) prog" where
  "for_plots env host secret_key resource timestamp all_plots [] s = (Inr (), s)"
| "for_plots env host secret_key resource timestamp all_plots (plotname # rest) s =
     (case plot_iteration env host secret_key resource timestamp all_plots plotname s of
        (Inl e, s') \<Rightarrow> (Inl e, s')
      | (Inr _, s') \<Rightarrow> for_plots env host secret_key resource timestamp all_plots rest s')"

section \<open>\<^verbatim>\<open>process_message\<close>\<close>

text \<open>Line 91.\<close>

definition out_csv_of :: "resource \<Rightarrow> string" where
  "out_csv_of resource = py_replace (res_name resource) ''.tif'' ''_canopycover.csv''"

text \<open>Lines 140-154: close, bulk submission, metadata annotation.\<close>

definition submit_and_annotate ::
  "('px, 'f, 'm) env \<Rightarrow> extractor \<Rightarrow> string \<Rightarrow> string \<Rightarrow> resource \<Rightarrow> string \<Rightarrow> (string \<times> string) list
     \<Rightarrow> (unit, ('f, 'm) state) prog" where
  "submit_and_annotate env self host secret_key resource out_csv all_plots =
     do_then csv_close (\<lambda>_.
     do_then (self_log_info env [Res resource, Msg ''submitting CSV to bety'']) (\<lambda>_.
     do_then (attempt (submit_traits env out_csv (bety_key self))
                (\<lambda>s. s\<lparr>submitted := submitted s @ [(out_csv, bety_key self)]\<rparr>)) (\<lambda>_.
     do_then (self_log_info env
                [Res resource, Msg (''updating dataset metadata ('' @ res_parent_id resource @ '')'')]) (\<lambda>_.
     do_then (\<lambda>s. lift (build_metadata env host (extractor_info self) (res_parent_id resource)
                          \<lparr>plots_processed = successful_plots s,
                           plots_skipped = int (length all_plots) - successful_plots s,
                           betydb_link = ''https://terraref.ncsa.illinois.edu/bety/api/beta/variables?name=canopy_cover''\<rparr>
                          ''dataset'') s) (\<lambda>ext_meta.
     do_then (attempt (upload_metadata env host secret_key (res_parent_id resource) ext_meta)
                (\<lambda>s. s\<lparr>uploaded := uploaded s @ [(res_parent_id resource, ext_meta)]\<rparr>)) (\<lambda>_.
     self_end_message env []))))))"

text \<open>
  Lines 86-103: the timestamp from the dataset's name, the output file opened and its
  header written, the plots of the day enumerated. The result is \<^verbatim>\<open>timestamp\<close> and
  \<^verbatim>\<open>all_plots\<close>.
\<close>

definition prepare ::
  "('px, 'f, 'm) env \<Rightarrow> string \<Rightarrow> string \<Rightarrow> resource
     \<Rightarrow> (string \<times> (string \<times> string) list, ('f, 'm) state) prog" where
  "prepare env host secret_key resource =
     do_then (self_start_message env [Res resource]) (\<lambda>_.
     do_then (lift (get_info env host secret_key (res_parent_id resource))) (\<lambda>ds_info.
     do_then (lift (py_getitem ds_info ''name'')) (\<lambda>ds_name.
     do_then (lift (py_split ds_name '' - '')) (\<lambda>parts.
     do_then (lift (py_index parts 1)) (\<lambda>timestamp.
     let out_csv = out_csv_of resource in
     do_then (self_log_info env [Res resource, Msg (''Writing CSV to '' @ out_csv)]) (\<lambda>_.
     do_then (open_csv env out_csv) (\<lambda>_.
     let (fields, traits0) = get_traits_table in
     do_then (modify (\<lambda>s. s\<lparr>traits := traits0\<rparr>)) (\<lambda>_.
     do_then (csv_write (py_join '','' fields @ newline)) (\<lambda>_.
     do_then (lift (get_site_boundaries env timestamp ''Maricopa'')) (\<lambda>all_plots.
     do_then (self_log_info env
                [Res resource, Msg (''found '' @ str_int (int (length all_plots)) @ '' plots on ''
                                    @ timestamp)]) (\<lambda>_.
     do_then (modify (\<lambda>s. s\<lparr>successful_plots := 0\<rparr>)) (\<lambda>_.
     returns (timestamp, all_plots)))))))))))))"

text \<open>Lines 85-154.\<close>

definition process_message ::
  "('px, 'f, 'm) env \<Rightarrow> extractor \<Rightarrow> string \<Rightarrow> string \<Rightarrow> resource \<Rightarrow> (unit, ('f, 'm) state) prog" where
  "process_message env self host secret_key resource =
     do_then (prepare env host secret_key resource) (\<lambda>(timestamp, all_plots).
     do_then (for_plots env host secret_key resource timestamp all_plots (map fst all_plots)) (\<lambda>_.
     submit_and_annotate env self host secret_key resource (out_csv_of resource) all_plots))"

section \<open>Notions used in the properties\<close>

text \<open>The header of the tabular file, as the interface description gives it.\<close>

definition header_line :: string where
  "header_line =
     ''local_datetime,canopy_cover,access_level,species,site,citation_author,citation_year,citation_title,method''"

text \<open>
  The Trait Record of a plot: the defaults of \<^verbatim>\<open>get_traits_table\<close> with the three
  entries a plot sets. \<open>record_line\<close> joins the values of a record in the order of the
  header's field names, and \<open>csv_row\<close> is the line of a plot.
\<close>

definition trait_record :: "string \<Rightarrow> string \<Rightarrow> string \<Rightarrow> (string \<rightharpoonup> pyval)" where
  "trait_record local_datetime canopy_cover site =
     (snd get_traits_table)(''canopy_cover'' \<mapsto> PyStr canopy_cover, ''site'' \<mapsto> PyStr site,
                            ''local_datetime'' \<mapsto> PyStr local_datetime)"

definition record_line :: "(string \<rightharpoonup> pyval) \<Rightarrow> string" where
  "record_line tr =
     py_join '','' (map (\<lambda>field. case tr field of None \<Rightarrow> [] | Some v \<Rightarrow> py_str v)
                     (fst get_traits_table)) @ newline"

definition csv_row :: "string \<Rightarrow> string \<Rightarrow> string \<Rightarrow> string" where
  "csv_row timestamp canopy_cover plotname =
     record_line (trait_record (timestamp @ ''T12:00:00'') canopy_cover plotname)"

text \<open>The cells of a line: the line without its newline, split at the commas.\<close>

definition cells :: "string \<Rightarrow> string list" where
  "cells line = split_scan '','' [] (filter (\<lambda>c. c \<noteq> CHR 0x0A) line)"

definition commas :: "string \<Rightarrow> nat" where
  "commas s = count_list s CHR '',''"

text \<open>The six entries of the traits dictionary that no statement of the loop assigns.\<close>

definition fixed_traits :: "(string \<rightharpoonup> pyval) \<Rightarrow> bool" where
  "fixed_traits tr \<longleftrightarrow>
     tr ''access_level'' = Some (PyStr ''2'') \<and>
     tr ''species'' = Some (PyStr ''Sorghum bicolor'') \<and>
     tr ''citation_author'' = Some (PyStr (CHR 0x22 # ''Zongyang, Li'' @ [CHR 0x22])) \<and>
     tr ''citation_year'' = Some (PyStr ''2016'') \<and>
     tr ''citation_title'' = Some (PyStr ''Maricopa Field Station Data and Metadata'') \<and>
     tr ''method'' = Some (PyStr ''Canopy Cover Estimation from RGB images'')"

text \<open>The acquisition date of a run (lines 89-90): the second part of the dataset's name.\<close>

definition acquisition_date :: "('px, 'f, 'm) env \<Rightarrow> string \<Rightarrow> string \<Rightarrow> resource \<Rightarrow> error + string" where
  "acquisition_date env host secret_key resource =
     (case get_info env host secret_key (res_parent_id resource) of Inl e \<Rightarrow> Inl e | Inr ds_info \<Rightarrow>
      case py_getitem ds_info ''name'' of Inl e \<Rightarrow> Inl e | Inr ds_name \<Rightarrow>
      case py_split ds_name '' - '' of Inl e \<Rightarrow> Inl e | Inr parts \<Rightarrow> py_index parts 1)"

text \<open>
  The centroid of a boundary (line 130): the centroid document decoded and its
  \<^verbatim>\<open>"coordinates"\<close> entry. The coordinates passed to the data-point call (line 137) are
  its entries 1 and 0, read in this order.
\<close>

definition centroid_lonlat_of :: "('px, 'f, 'm) env \<Rightarrow> string \<Rightarrow> error + 'f json" where
  "centroid_lonlat_of env bounds =
     (case centroid_from_geojson env bounds of Inl e \<Rightarrow> Inl e | Inr geojson \<Rightarrow>
      case json_loads env geojson of Inl e \<Rightarrow> Inl e | Inr doc \<Rightarrow>
      subscript_key doc ''coordinates'')"

definition centroid_latlon :: "('px, 'f, 'm) env \<Rightarrow> string \<Rightarrow> error + 'f json \<times> 'f json" where
  "centroid_latlon env bounds =
     (case centroid_lonlat_of env bounds of Inl e \<Rightarrow> Inl e | Inr centroid_lonlat \<Rightarrow>
      case subscript_int centroid_lonlat 1 of Inl e \<Rightarrow> Inl e | Inr lat \<Rightarrow>
      case subscript_int centroid_lonlat 0 of Inl e \<Rightarrow> Inl e | Inr lon \<Rightarrow> Inr (lat, lon))"

text \<open>The data point of lines 131-138 for a canopy-cover value and a pair of coordinates.\<close>

definition datapoint_of ::
  "string \<Rightarrow> string \<Rightarrow> resource \<Rightarrow> string \<Rightarrow> 'f \<Rightarrow> 'f json \<times> 'f json \<Rightarrow> 'f datapoint" where
  "datapoint_of host secret_key resource timestamp ccVal latlon =
     \<lparr>dp_host = host, dp_secret_key = secret_key, dp_stream = ''Canopy Cover'',
      dp_latlon = latlon, dp_start_time = timestamp @ ''T12:00:00-07:00'',
      dp_end_time = timestamp @ ''T12:00:00-07:00'',
      dp_source = host @ (if endswith host ''/'' then [] else ''/'') @ ''files/'' @ res_id resource,
      dp_canopy_cover = ccVal, dp_filter_date = timestamp\<rparr>"

text \<open>A plot whose clipped array has fewer than three dimensions.\<close>

definition short_shape :: "('px, 'f, 'm) env \<Rightarrow> resource \<Rightarrow> string \<Rightarrow> bool" where
  "short_shape env resource bounds =
     (case py_index (res_local_paths resource) 0 of Inl e \<Rightarrow> False | Inr path \<Rightarrow>
      case clip_raster env path bounds of Inl e \<Rightarrow> False | Inr pxarray \<Rightarrow>
        length (shape env pxarray) < 3)"

text \<open>
  The canopy cover estimated for a boundary (lines 109-114): the raster clipped to it
  has three dimensions or more and the estimator returns this value for it, its first
  axis rolled to the end.
\<close>

definition estimated :: "('px, 'f, 'm) env \<Rightarrow> resource \<Rightarrow> string \<Rightarrow> 'f \<Rightarrow> bool" where
  "estimated env resource bounds ccVal =
     (case py_index (res_local_paths resource) 0 of Inl e \<Rightarrow> False | Inr path \<Rightarrow>
      case clip_raster env path bounds of Inl e \<Rightarrow> False | Inr pxarray \<Rightarrow>
        \<not> length (shape env pxarray) < 3 \<and>
        calculate_canopycover env (rollaxis env pxarray 0 3) = Inr ccVal)"

text \<open>What the statements of the loop leave alone.\<close>

definition same_files :: "('f, 'm) state \<Rightarrow> ('f, 'm) state \<Rightarrow> bool" where
  "same_files s s' \<longleftrightarrow>
     closes s' = closes s \<and> opened s' = opened s \<and> submitted s' = submitted s \<and>
     uploaded s' = uploaded s"

text \<open>
  The outcome of the \<^verbatim>\<open>try\<close> statement, read off its result: nothing is written or sent,
  the counter stays or goes up by one, and it goes up only for a plot that was clipped
  to three dimensions or more.
\<close>

definition clip_effect ::
  "('px, 'f, 'm) env \<Rightarrow> resource \<Rightarrow> string \<Rightarrow> string \<Rightarrow> ('f, 'm) state
     \<Rightarrow> (error + 'f flow) \<times> ('f, 'm) state \<Rightarrow> bool" where
  "clip_effect env resource plotname bounds s rs =
     (case rs of (r, s') \<Rightarrow>
        same_files s s' \<and> csv_file s' = csv_file s \<and> datapoints s' = datapoints s \<and>
        traits s' = traits s \<and>
        (successful_plots s' = successful_plots s \<or>
         successful_plots s' = successful_plots s + 1 \<and> \<not> short_shape env resource bounds) \<and>
        (case r of
           Inl e \<Rightarrow> log_error env [Msg (''error generating cc for '' @ plotname)] = Some e
         | Inr Continue \<Rightarrow> True
         | Inr (Fallthrough ccVal) \<Rightarrow>
             successful_plots s' = successful_plots s + 1 \<and> \<not> short_shape env resource bounds))"

text \<open>
  The outcome of lines 123-138 when the six fixed entries hold their defaults: the row
  of the plot is written, and then either the centroid computation raises, or the data
  point call is made and the statement ends as that call does.
\<close>

definition dispatch_effect ::
  "('px, 'f, 'm) env \<Rightarrow> string \<Rightarrow> string \<Rightarrow> resource \<Rightarrow> string \<Rightarrow> string \<Rightarrow> string \<Rightarrow> 'f
     \<Rightarrow> ('f, 'm) state \<Rightarrow> (error + unit) \<times> ('f, 'm) state \<Rightarrow> bool" where
  "dispatch_effect env host secret_key resource timestamp plotname bounds ccVal s rs =
     (case rs of (r, s') \<Rightarrow>
        same_files s s' \<and> successful_plots s' = successful_plots s \<and> fixed_traits (traits s') \<and>
        csv_file s' = csv_file s @ [csv_row timestamp (str_float env ccVal) plotname] \<and>
        (case centroid_latlon env bounds of
           Inl e \<Rightarrow> r = Inl e \<and> datapoints s' = datapoints s
         | Inr latlon \<Rightarrow>
             datapoints s' = datapoints s @ [datapoint_of host secret_key resource timestamp ccVal latlon] \<and>
             r = (case create_datapoint_with_dependencies env
                         (datapoint_of host secret_key resource timestamp ccVal latlon) of
                    Some e \<Rightarrow> Inl e | None \<Rightarrow> Inr ())))"

text \<open>
  The outcome of one pass of the loop body: the plot leaves no trace in the file and no
  data point (it was skipped, or the handler's logging call raised), or its row is
  written as above.
\<close>

definition iteration_effect ::
  "('px, 'f, 'm) env \<Rightarrow> string \<Rightarrow> string \<Rightarrow> resource \<Rightarrow> string \<Rightarrow> (string \<times> string) list \<Rightarrow> string
     \<Rightarrow> ('f, 'm) state \<Rightarrow> (error + unit) \<times> ('f, 'm) state \<Rightarrow> bool" where
  "iteration_effect env host secret_key resource timestamp all_plots plotname s rs =
     (case rs of (r, s') \<Rightarrow>
        same_files s s' \<and> fixed_traits (traits s') \<and>
        (case py_getitem all_plots plotname of
           Inl e \<Rightarrow> r = Inl e \<and> s' = s
         | Inr bounds \<Rightarrow>
             (successful_plots s' = successful_plots s \<or>
              successful_plots s' = successful_plots s + 1 \<and> \<not> short_shape env resource bounds) \<and>
             (csv_file s' = csv_file s \<and> datapoints s' = datapoints s \<and>
              (r = Inr () \<or>
               (\<exists>e. r = Inl e \<and> log_error env [Msg (''error generating cc for '' @ plotname)] = Some e))
              \<or>
              (\<exists>ccVal.
                 estimated env resource bounds ccVal \<and>
                 successful_plots s' = successful_plots s + 1 \<and> \<not> short_shape env resource bounds \<and>
                 csv_file s' = csv_file s @ [csv_row timestamp (str_float env ccVal) plotname] \<and>
                 (case centroid_latlon env bounds of
                    Inl e \<Rightarrow> r = Inl e \<and> datapoints s' = datapoints s
                  | Inr latlon \<Rightarrow>
                      datapoints s' =
                        datapoints s @ [datapoint_of host secret_key resource timestamp ccVal latlon] \<and>
                      r = (case create_datapoint_with_dependencies env
                                  (datapoint_of host secret_key resource timestamp ccVal latlon) of
                             Some e \<Rightarrow> Inl e | None \<Rightarrow> Inr ()))))))"

text \<open>The outcome of lines 86-103 on a fresh state.\<close>

definition prepared ::
  "('px, 'f, 'm) env \<Rightarrow> string \<Rightarrow> string \<Rightarrow> resource
     \<Rightarrow> (error + string \<times> (string \<times> string) list) \<times> ('f, 'm) state \<Rightarrow> bool" where
  "prepared env host secret_key resource rs =
     (case rs of (r, s) \<Rightarrow>
        closes s = 0 \<and> datapoints s = [] \<and> submitted s = [] \<and> uploaded s = [] \<and>
        (case r of
           Inl e \<Rightarrow> (opened s = [] \<or> opened s = [out_csv_of resource]) \<and>
                    (csv_file s = [] \<or> csv_file s = [header_line @ newline])
         | Inr (timestamp, all_plots) \<Rightarrow>
             acquisition_date env host secret_key resource = Inr timestamp \<and>
             get_site_boundaries env timestamp ''Maricopa'' = Inr all_plots \<and>
             opened s = [out_csv_of resource] \<and> csv_file s = [header_line @ newline] \<and>
             traits s = snd get_traits_table \<and> successful_plots s = 0))"

text \<open>The outcome of lines 140-154: one \<^verbatim>\<open>close\<close>, then the submission, then the annotation.\<close>

definition annotate_effect ::
  "('px, 'f, 'm) env \<Rightarrow> extractor \<Rightarrow> string \<Rightarrow> resource \<Rightarrow> string \<Rightarrow> (string \<times> string) list
     \<Rightarrow> ('f, 'm) state \<Rightarrow> (error + unit) \<times> ('f, 'm) state \<Rightarrow> bool" where
  "annotate_effect env self host resource out_csv all_plots s rs =
     (case rs of (r, s') \<Rightarrow>
        closes s' = closes s + 1 \<and> csv_file s' = csv_file s \<and> datapoints s' = datapoints s \<and>
        opened s' = opened s \<and> successful_plots s' = successful_plots s \<and>
        (submitted s' = submitted s \<and> uploaded s' = uploaded s \<and> r \<noteq> Inr ()
         \<or>
         submitted s' = submitted s @ [(out_csv, bety_key self)] \<and>
         (uploaded s' = uploaded s \<and> r \<noteq> Inr ()
          \<or>
          (\<exists>ext_meta.
             build_metadata env host (extractor_info self) (res_parent_id resource)
               \<lparr>plots_processed = successful_plots s,
                plots_skipped = int (length all_plots) - successful_plots s,
                betydb_link = ''https://terraref.ncsa.illinois.edu/bety/api/beta/variables?name=canopy_cover''\<rparr>
               ''dataset'' = Inr ext_meta \<and>
             uploaded s' = uploaded s @ [(res_parent_id resource, ext_meta)]))))"

text \<open>
  The name of a file with its extension replaced, in the words of the interface
  description: what follows the last dot of the name, when that holds no path separator,
  gives way to the new ending.
\<close>

definition replace_extension :: "string \<Rightarrow> string \<Rightarrow> string" where
  "replace_extension name ending =
     (let ext = takeWhile (\<lambda>c. c \<noteq> CHR ''.'') (rev name)
      in if CHR ''.'' \<in> set name \<and> CHR ''/'' \<notin> set ext
         then take (length name - length ext - 1) name @ ending
         else name @ ending)"

text \<open>
  The directory of a path, as \<^verbatim>\<open>os.path.dirname\<close> gives it: what precedes the last
  slash, without the slashes that end it unless it consists of slashes only.
\<close>

definition dirname :: "string \<Rightarrow> string" where
  "dirname path =
     (let head = rev (dropWhile (\<lambda>c. c \<noteq> CHR ''/'') (rev path))
      in if filter (\<lambda>c. c \<noteq> CHR ''/'') head = [] then head
         else rev (dropWhile (\<lambda>c. c = CHR ''/'') (rev head)))"


section \<open>Sample runs\<close>

text \<open>
  A logging method declared with the two positional parameters \<^verbatim>\<open>(resource, msg)\<close> that
  the calls of lines 95, 102, 111, 118, 142 and 146 pass: any other argument list is a
  TypeError.
\<close>

definition two_positional :: "logarg list \<Rightarrow> error option" where
  "two_positional args = (case args of [Res r, Msg m] \<Rightarrow> None | _ \<Rightarrow> Some TypeError)"

text \<open>
  The field of the example scenario: date 2016-07-01, three plots, of which MAC_001
  fails clipping and the other two give 0.42 and 0.57. Pixel arrays are kept as their
  shapes and floats as their decimal text; every other collaborator returns, and the
  logging methods accept any arguments.
\<close>

definition sample_env :: "(nat list, string, summary) env" where
  "sample_env = \<lparr>
     start_message = (\<lambda>args. None),
     end_message = (\<lambda>args. None),
     log_info = (\<lambda>args. None),
     log_error = (\<lambda>args. None),
     get_info = (\<lambda>host key ds. Inr [(''name'', ''stereoTop - 2016-07-01'')]),
     open_file = (\<lambda>path. None),
     get_site_boundaries =
       (\<lambda>date city. Inr [(''MAC_001'', ''b1''), (''MAC_002'', ''b2''), (''MAC_003'', ''b3'')]),
     clip_raster =
       (\<lambda>path bounds. if bounds = ''b1'' then Inl (Raised ''clip'')
                      else if bounds = ''b2'' then Inr [3, 20, 30] else Inr [3, 20, 40]),
     shape = (\<lambda>px. px),
     rollaxis = (\<lambda>px a b. rotate1 px),
     calculate_canopycover = (\<lambda>px. if px = [20, 30, 3] then Inr ''0.42'' else Inr ''0.57''),
     str_float = (\<lambda>f. f),
     centroid_from_geojson = (\<lambda>bounds. Inr bounds),
     json_loads =
       (\<lambda>text. Inr (JObj [(''type'', JStr ''Point''),
                            (''coordinates'', JArr [JNum ''-111.97'', JNum ''33.07''])])),
     create_datapoint_with_dependencies = (\<lambda>dp. None),
     submit_traits = (\<lambda>path key. None),
     build_metadata = (\<lambda>host info ds content scope. Inr content),
     upload_metadata = (\<lambda>host key ds doc. None)\<rparr>"

definition sample_resource :: resource where
  "sample_resource =
     \<lparr>res_name = ''fullfield_L1_ua-mac_2016-07-01_rgb_thumb.tif'', res_id = ''f1'',
      res_local_paths = [''/tmp/f1.tif''], res_parent_id = ''d1''\<rparr>"

definition sample_self :: extractor where
  "sample_self = \<lparr>bety_key = ''key'', extractor_info = ''terra.canopycover''\<rparr>"

text \<open>
  A method declared with the one positional parameter \<^verbatim>\<open>resource\<close> that line 86 passes
  to \<^verbatim>\<open>start_message\<close>.
\<close>

definition one_positional :: "logarg list \<Rightarrow> error option" where
  "one_positional args = (case args of [Res r] \<Rightarrow> None | _ \<Rightarrow> Some TypeError)"

text \<open>The sample field with the logging methods of the declared two parameters.\<close>

definition strict_logging_env :: "(nat list, string, summary) env" where
  "strict_logging_env = sample_env\<lparr>log_info := two_positional, log_error := two_positional\<rparr>"

text \<open>
  The sample field with the methods of the base class declared the way the calls of
  lines 86, 95 and 111 use them: \<^verbatim>\<open>start_message\<close> and \<^verbatim>\<open>end_message\<close> take the resource,
  \<^verbatim>\<open>log_info\<close> and \<^verbatim>\<open>log_error\<close> take the resource and a message.
\<close>

definition base_class_env :: "(nat list, string, summary) env" where
  "base_class_env =
     sample_env\<lparr>start_message := one_positional, end_message := one_positional,
                 log_info := two_positional, log_error := two_positional\<rparr>"

definition sample_run :: "(error + unit) \<times> (string, summary) state" where
  "sample_run =
     process_message sample_env sample_self ''https://host'' ''secret'' sample_resource initial"

text \<open>A field whose only plot has a comma in its name.\<close>

definition comma_name_run :: "(error + unit) \<times> (string, summary) state" where
  "comma_name_run =
     process_message
       (sample_env\<lparr>get_site_boundaries := (\<lambda>date city. Inr [(''MAC Field Scanner, Range 2'', ''b2'')])\<rparr>)
       sample_self ''https://host'' ''secret'' sample_resource initial"

text \<open>The sample field when every data-point call raises.\<close>

definition dispatch_fails_run :: "(error + unit) \<times> (string, summary) state" where
  "dispatch_fails_run =
     process_message
       (sample_env\<lparr>create_datapoint_with_dependencies := (\<lambda>dp. Some (Raised ''geostreams''))\<rparr>)
       sample_self ''https://host'' ''secret'' sample_resource initial"

text \<open>The sample field when the enumeration of the plots raises.\<close>

definition enumeration_fails_run :: "(error + unit) \<times> (string, summary) state" where
  "enumeration_fails_run =
     process_message (sample_env\<lparr>get_site_boundaries := (\<lambda>date city. Inl (Raised ''betydb''))\<rparr>)
       sample_self ''https://host'' ''secret'' sample_resource initial"

text \<open>The sample field when every plot is clipped to a two-dimensional array.\<close>

definition flat_env :: "(nat list, string, summary) env" where
  "flat_env = sample_env\<lparr>clip_raster := (\<lambda>path bounds. Inr [20, 30])\<rparr>"

definition flat_run :: "(error + unit) \<times> (string, summary) state" where
  "flat_run = process_message flat_env sample_self ''https://host'' ''secret'' sample_resource initial"

text \<open>The sample field when the centroid of a boundary cannot be computed.\<close>

definition centroid_fails_run :: "(error + unit) \<times> (string, summary) state" where
  "centroid_fails_run =
     process_message (sample_env\<lparr>centroid_from_geojson := (\<lambda>bounds. Inl (Raised ''gdal''))\<rparr>)
       sample_self ''https://host'' ''secret'' sample_resource initial"

text \<open>The sample site, with that base class, on a date for which no plots are registered.\<close>

definition empty_field_run :: "(error + unit) \<times> (string, summary) state" where
  "empty_field_run =
     process_message (base_class_env\<lparr>get_site_boundaries := (\<lambda>date city. Inr [])\<rparr>)
       sample_self ''https://host'' ''secret'' sample_resource initial"

text \<open>A resource whose name ends in \<^verbatim>\<open>.tiff\<close>.\<close>

definition tiff_resource :: resource where
  "tiff_resource = sample_resource\<lparr>res_name := ''fullfield_L1_ua-mac_2016-07-01_rgb_thumb.tiff''\<rparr>"



text \<open>
  A field of two plots with different centroids, both clipped and estimated: MAC_002
  with the value 0.42 and MAC_003 with 0.57.
\<close>

definition two_centroids_env :: "(nat list, string, summary) env" where
  "two_centroids_env =
     sample_env\<lparr>
       get_site_boundaries := (\<lambda>date city. Inr [(''MAC_002'', ''b2''), (''MAC_003'', ''b3'')]),
       json_loads :=
         (\<lambda>text. Inr (JObj [(''type'', JStr ''Point''),
                              (''coordinates'',
                               JArr [JNum (if text = ''b2'' then ''-111.97'' else ''-111.98''),
                                     JNum (if text = ''b2'' then ''33.07'' else ''33.08'')])]))\<rparr>"

definition two_centroids_run :: "(error + unit) \<times> (string, summary) state" where
  "two_centroids_run =
     process_message two_centroids_env sample_self ''https://host'' ''secret'' sample_resource initial"

section \<open>Properties\<close>

subsection \<open>Auxiliary facts\<close>

lemmas prog_defs = do_then_def lift_def returns_def modify_def call_def attempt_def try_except_def
lemmas self_defs = self_start_message_def self_end_message_def self_log_info_def self_log_error_def
  open_csv_def csv_write_def csv_close_def

lemma header_join: "py_join '','' (fst get_traits_table) = header_line"
  by (simp add: get_traits_table_def header_line_def)

lemma clip_and_estimate_effect:
  "clip_effect env resource plotname bounds s (clip_and_estimate env resource all_plots plotname bounds s)"
  unfolding clip_and_estimate_def self_defs clip_effect_def prog_defs same_files_def short_shape_def
  by (simp split: sum.split option.split)

lemma clip_and_estimate_estimated:
  "case fst (clip_and_estimate env resource all_plots plotname bounds s) of
     Inl e \<Rightarrow> True
   | Inr Continue \<Rightarrow> True
   | Inr (Fallthrough ccVal) \<Rightarrow> estimated env resource bounds ccVal"
  unfolding clip_and_estimate_def self_defs prog_defs estimated_def
  by (auto split: sum.split option.split)

lemma csv_row_text:
  "csv_row timestamp cc plotname =
     timestamp @ ''T12:00:00,'' @ cc @ '',2,Sorghum bicolor,'' @ plotname @ '','' @ [CHR 0x22]
     @ ''Zongyang, Li'' @ [CHR 0x22]
     @ '',2016,Maricopa Field Station Data and Metadata,Canopy Cover Estimation from RGB images''
     @ newline"
  by (simp add: csv_row_def record_line_def trait_record_def get_traits_table_def)

lemma generate_traits_list_fixed:
  assumes "fixed_traits tr"
  shows "generate_traits_list
           (tr(''canopy_cover'' \<mapsto> PyStr cc, ''site'' \<mapsto> PyStr plotname,
               ''local_datetime'' \<mapsto> PyStr (timestamp @ ''T12:00:00'')))
         = Inr [PyStr (timestamp @ ''T12:00:00''), PyStr cc, PyStr ''2'', PyStr ''Sorghum bicolor'',
                PyStr plotname, PyStr (CHR 0x22 # ''Zongyang, Li'' @ [CHR 0x22]), PyStr ''2016'',
                PyStr ''Maricopa Field Station Data and Metadata'',
                PyStr ''Canopy Cover Estimation from RGB images'']"
  using assms by (simp add: generate_traits_list_def fixed_traits_def)

lemma fixed_traits_update:
  assumes "fixed_traits tr"
  shows "fixed_traits (tr(''canopy_cover'' \<mapsto> a, ''site'' \<mapsto> b, ''local_datetime'' \<mapsto> c))"
  using assms by (simp add: fixed_traits_def)

lemma fixed_traits_table: "fixed_traits (snd get_traits_table)"
  by (simp add: fixed_traits_def get_traits_table_def)

lemma row_of_fixed:
  assumes "fixed_traits tr"
  shows "(case generate_traits_list
           (tr(''canopy_cover'' \<mapsto> PyStr cc, ''site'' \<mapsto> PyStr plotname,
               ''local_datetime'' \<mapsto> PyStr (timestamp @ ''T12:00:00''))) of
            Inl e \<Rightarrow> [] | Inr trait_list \<Rightarrow> py_join '','' (map py_str trait_list) @ newline)
         = csv_row timestamp cc plotname"
  by (simp add: generate_traits_list_fixed[OF assms] csv_row_text)


lemma write_and_dispatch_effect:
  assumes "fixed_traits (traits s)"
  shows "dispatch_effect env host secret_key resource timestamp plotname bounds ccVal s
           (write_and_dispatch env host secret_key resource timestamp plotname bounds ccVal s)"
  unfolding write_and_dispatch_def dispatch_effect_def prog_defs csv_write_def Let_def
  by (simp add: generate_traits_list_fixed[OF assms] fixed_traits_update[OF assms] csv_row_text
        same_files_def centroid_latlon_def centroid_lonlat_of_def datapoint_of_def
      split: sum.split option.split)


lemma plot_iteration_effect:
  assumes "fixed_traits (traits s)"
  shows "iteration_effect env host secret_key resource timestamp all_plots plotname s
           (plot_iteration env host secret_key resource timestamp all_plots plotname s)"
proof (cases "py_getitem all_plots plotname")
  case (Inl e)
  then show ?thesis
    using assms by (simp add: plot_iteration_def iteration_effect_def prog_defs same_files_def)
next
  case (Inr bounds)
  obtain r1 s1 where c: "clip_and_estimate env resource all_plots plotname bounds s = (r1, s1)"
    by fastforce
  have ce: "clip_effect env resource plotname bounds s (r1, s1)"
    using clip_and_estimate_effect[of env resource plotname bounds s all_plots] c by simp
  have step: "plot_iteration env host secret_key resource timestamp all_plots plotname s =
      (case r1 of Inl e \<Rightarrow> (Inl e, s1)
       | Inr Continue \<Rightarrow> (Inr (), s1)
       | Inr (Fallthrough ccVal) \<Rightarrow>
           write_and_dispatch env host secret_key resource timestamp plotname bounds ccVal s1)"
    using Inr c by (simp add: plot_iteration_def do_then_def lift_def returns_def
                         split: sum.split flow.split)
  show ?thesis
  proof (cases r1)
    case (Inl e)
    then show ?thesis
      using ce assms Inr step by (auto simp: iteration_effect_def clip_effect_def same_files_def)
  next
    case r1: (Inr fl)
    show ?thesis
    proof (cases fl)
      case Continue
      then show ?thesis
        using ce assms Inr step r1 by (auto simp: iteration_effect_def clip_effect_def same_files_def)
    next
      case (Fallthrough ccVal)
      have ft: "fixed_traits (traits s1)"
        using ce assms by (simp add: clip_effect_def)
      have est: "estimated env resource bounds ccVal"
        using clip_and_estimate_estimated[where env = env and resource = resource
            and all_plots = all_plots and plotname = plotname and bounds = bounds and s = s]
          c r1 Fallthrough
        by simp
      obtain r2 s2 where w:
        "write_and_dispatch env host secret_key resource timestamp plotname bounds ccVal s1 = (r2, s2)"
        by fastforce
      have de: "dispatch_effect env host secret_key resource timestamp plotname bounds ccVal s1 (r2, s2)"
        using write_and_dispatch_effect[OF ft, of env host secret_key resource timestamp plotname bounds ccVal] w
        by simp
      have "iteration_effect env host secret_key resource timestamp all_plots plotname s (r2, s2)"
        using ce de est Inr r1 Fallthrough
        unfolding iteration_effect_def clip_effect_def dispatch_effect_def same_files_def
        by (auto split: sum.splits)
      then show ?thesis
        using step r1 Fallthrough w by simp
    qed
  qed
qed

lemma do_then_lift:
  "do_then (lift v) f s = (case v of Inl e \<Rightarrow> (Inl e, s) | Inr x \<Rightarrow> f x s)"
  by (simp add: prog_defs split: sum.splits)

lemma do_then_returns: "do_then (returns x) f s = f x s"
  by (simp add: prog_defs)

lemma do_then_modify: "do_then (modify g) f s = f () (g s)"
  by (simp add: prog_defs)

lemma do_then_call:
  "do_then (call out eff) f s = (case out of Some e \<Rightarrow> (Inl e, s) | None \<Rightarrow> f () (eff s))"
  by (simp add: prog_defs split: option.splits)

lemma do_then_attempt:
  "do_then (attempt out eff) f s = (case out of Some e \<Rightarrow> (Inl e, eff s) | None \<Rightarrow> f () (eff s))"
  by (simp add: prog_defs split: option.splits)

lemmas do_then_simps = do_then_lift do_then_returns do_then_modify do_then_call do_then_attempt

lemma prepare_prepared:
  "prepared env host secret_key resource (prepare env host secret_key resource initial)"
  unfolding prepare_def self_defs initial_def Let_def split_def header_join prepared_def
    acquisition_date_def
  by (simp add: do_then_simps returns_def split: sum.split option.split)

lemma for_plots_rule:
  assumes ft: "fixed_traits (traits s)"
      and run: "for_plots env host secret_key resource timestamp all_plots keys s = (r, s')"
      and init: "J (Inr ()) s"
      and step: "\<And>k s1 r1 s2. k \<in> set keys \<Longrightarrow> J (Inr ()) s1 \<Longrightarrow> fixed_traits (traits s1) \<Longrightarrow>
                   iteration_effect env host secret_key resource timestamp all_plots k s1 (r1, s2)
                   \<Longrightarrow> J r1 s2"
    shows "J r s' \<and> fixed_traits (traits s')"
  using ft run init step
proof (induction keys arbitrary: s)
  case Nil
  then show ?case by simp
next
  case (Cons k keys)
  obtain r1 s1 where it:
    "plot_iteration env host secret_key resource timestamp all_plots k s = (r1, s1)"
    by fastforce
  have eff: "iteration_effect env host secret_key resource timestamp all_plots k s (r1, s1)"
    using plot_iteration_effect[OF Cons.prems(1), of env host secret_key resource timestamp all_plots k] it
    by simp
  have j1: "J r1 s1"
    using Cons.prems(4)[OF _ Cons.prems(3) Cons.prems(1) eff] by simp
  have ft1: "fixed_traits (traits s1)"
    using eff by (simp add: iteration_effect_def)
  show ?case
  proof (cases r1)
    case (Inl e)
    then show ?thesis using Cons.prems(2) it j1 ft1 by simp
  next
    case (Inr u)
    then have rest: "for_plots env host secret_key resource timestamp all_plots keys s1 = (r, s')"
      using Cons.prems(2) it by simp
    have j1': "J (Inr ()) s1" using j1 Inr by simp
    show ?thesis
      by (rule Cons.IH[OF ft1 rest j1']) (rule Cons.prems(4), auto)
  qed
qed

lemma submit_and_annotate_effect:
  "annotate_effect env self host resource out_csv all_plots s
     (submit_and_annotate env self host secret_key resource out_csv all_plots s)"
  unfolding submit_and_annotate_def self_defs annotate_effect_def prog_defs
  by (simp split: sum.split option.split)

lemma process_message_unfold:
  "process_message env self host secret_key resource s0 =
     (case prepare env host secret_key resource s0 of
        (Inl e, s1) \<Rightarrow> (Inl e, s1)
      | (Inr (timestamp, all_plots), s1) \<Rightarrow>
          (case for_plots env host secret_key resource timestamp all_plots (map fst all_plots) s1 of
             (Inl e, s2) \<Rightarrow> (Inl e, s2)
           | (Inr u, s2) \<Rightarrow>
               submit_and_annotate env self host secret_key resource (out_csv_of resource) all_plots s2))"
  by (simp add: process_message_def do_then_def split: prod.split sum.split)

lemma for_plots_rows:
  assumes "fixed_traits (traits s)"
      and "for_plots env host secret_key resource timestamp all_plots keys s = (r, s')"
    shows "\<exists>rows. csv_file s' = csv_file s @ rows \<and>
             (\<forall>row\<in>set rows. \<exists>cc plotname. row = csv_row timestamp cc plotname)"
proof -
  let ?J = "\<lambda>(r::error + unit) x. \<exists>rows. csv_file x = csv_file s @ rows \<and>
             (\<forall>row\<in>set rows. \<exists>cc plotname. row = csv_row timestamp cc plotname)"
  have "?J r s' \<and> fixed_traits (traits s')"
  proof (rule for_plots_rule[where J = ?J, OF assms])
    show "?J (Inr ()) s" by simp
  next
    fix k s1 r1 s2
    assume j: "?J (Inr ()) s1"
       and eff: "iteration_effect env host secret_key resource timestamp all_plots k s1 (r1, s2)"
    from j obtain rows where rows: "csv_file s1 = csv_file s @ rows"
      "\<forall>row\<in>set rows. \<exists>cc plotname. row = csv_row timestamp cc plotname" by blast
    from eff have "csv_file s2 = csv_file s1 \<or> (\<exists>cc. csv_file s2 = csv_file s1 @ [csv_row timestamp cc k])"
      by (cases "py_getitem all_plots k") (auto simp: iteration_effect_def)
    then show "?J r1 s2"
    proof
      assume "csv_file s2 = csv_file s1"
      then show ?thesis using rows by auto
    next
      assume "\<exists>cc. csv_file s2 = csv_file s1 @ [csv_row timestamp cc k]"
      then obtain cc where "csv_file s2 = csv_file s @ (rows @ [csv_row timestamp cc k])"
        using rows by auto
      moreover have "\<forall>row\<in>set (rows @ [csv_row timestamp cc k]). \<exists>cc plotname. row = csv_row timestamp cc plotname"
        using rows(2) by auto
      ultimately show ?thesis by blast
    qed
  qed
  then show ?thesis by simp
qed

lemma process_message_rows:
  assumes "process_message env self host secret_key resource initial = (r, s)"
  shows "csv_file s = [] \<or>
         (\<exists>timestamp rows. csv_file s = (header_line @ newline) # rows \<and>
            (\<forall>row\<in>set rows. \<exists>cc plotname. row = csv_row timestamp cc plotname))"
proof -
  obtain r1 s1 where p: "prepare env host secret_key resource initial = (r1, s1)" by fastforce
  have pp: "prepared env host secret_key resource (r1, s1)"
    using prepare_prepared[of env host secret_key resource] p by simp
  show ?thesis
  proof (cases r1)
    case (Inl e)
    then have "s = s1" using assms p by (simp add: process_message_unfold)
    then show ?thesis using pp Inl by (auto simp: prepared_def)
  next
    case (Inr tp)
    obtain timestamp all_plots where tp: "tp = (timestamp, all_plots)" by fastforce
    obtain r2 s2 where l:
      "for_plots env host secret_key resource timestamp all_plots (map fst all_plots) s1 = (r2, s2)"
      by fastforce
    have s1: "csv_file s1 = [header_line @ newline]" "fixed_traits (traits s1)"
      using pp Inr tp by (simp_all add: prepared_def fixed_traits_table)
    from for_plots_rows[OF s1(2) l] obtain rows where rows:
      "csv_file s2 = csv_file s1 @ rows"
      "\<forall>row\<in>set rows. \<exists>cc plotname. row = csv_row timestamp cc plotname" by blast
    have "csv_file s = csv_file s2"
    proof (cases r2)
      case (Inl e)
      then show ?thesis using assms p Inr tp l by (simp add: process_message_unfold)
    next
      case (Inr u)
      then have "submit_and_annotate env self host secret_key resource (out_csv_of resource) all_plots s2 = (r, s)"
        using assms p \<open>r1 = Inr tp\<close> tp l by (simp add: process_message_unfold)
      then show ?thesis
        using submit_and_annotate_effect[of env self host resource "out_csv_of resource" all_plots s2 secret_key]
        by (simp add: annotate_effect_def)
    qed
    then show ?thesis using rows s1 by auto
  qed
qed

lemma iteration_effectE:
  assumes "iteration_effect env host secret_key resource timestamp all_plots k s (r, s')"
  obtains
    (skipped) "same_files s s'" "fixed_traits (traits s')" "csv_file s' = csv_file s"
      "datapoints s' = datapoints s"
      "successful_plots s' = successful_plots s \<or>
       successful_plots s' = successful_plots s + 1 \<and>
       (\<exists>bounds. py_getitem all_plots k = Inr bounds \<and> \<not> short_shape env resource bounds)"
  | (row_only) bounds ccVal e where
      "same_files s s'" "fixed_traits (traits s')" "py_getitem all_plots k = Inr bounds"
      "\<not> short_shape env resource bounds" "successful_plots s' = successful_plots s + 1"
      "csv_file s' = csv_file s @ [csv_row timestamp (str_float env ccVal) k]"
      "datapoints s' = datapoints s" "centroid_latlon env bounds = Inl e" "r = Inl e"
      "estimated env resource bounds ccVal"
  | (dispatched) bounds ccVal latlon where
      "same_files s s'" "fixed_traits (traits s')" "py_getitem all_plots k = Inr bounds"
      "\<not> short_shape env resource bounds" "successful_plots s' = successful_plots s + 1"
      "csv_file s' = csv_file s @ [csv_row timestamp (str_float env ccVal) k]"
      "centroid_latlon env bounds = Inr latlon"
      "datapoints s' = datapoints s @ [datapoint_of host secret_key resource timestamp ccVal latlon]"
      "r = (case create_datapoint_with_dependencies env
                   (datapoint_of host secret_key resource timestamp ccVal latlon) of
              Some e \<Rightarrow> Inl e | None \<Rightarrow> Inr ())"
      "estimated env resource bounds ccVal"
proof (cases "py_getitem all_plots k")
  case (Inl e)
  then have "s' = s" "same_files s s'" "fixed_traits (traits s')"
    using assms by (auto simp: iteration_effect_def)
  then show ?thesis using skipped by simp
next
  case (Inr bounds)
  from assms Inr have base: "same_files s s'" "fixed_traits (traits s')"
    "successful_plots s' = successful_plots s \<or>
     successful_plots s' = successful_plots s + 1 \<and> \<not> short_shape env resource bounds"
    by (simp_all add: iteration_effect_def)
  from assms Inr consider
    (a) "csv_file s' = csv_file s" "datapoints s' = datapoints s"
  | (b) ccVal where "successful_plots s' = successful_plots s + 1" "\<not> short_shape env resource bounds"
      "csv_file s' = csv_file s @ [csv_row timestamp (str_float env ccVal) k]"
      "case centroid_latlon env bounds of
         Inl e \<Rightarrow> r = Inl e \<and> datapoints s' = datapoints s
       | Inr latlon \<Rightarrow>
           datapoints s' = datapoints s @ [datapoint_of host secret_key resource timestamp ccVal latlon] \<and>
           r = (case create_datapoint_with_dependencies env
                       (datapoint_of host secret_key resource timestamp ccVal latlon) of
                  Some e \<Rightarrow> Inl e | None \<Rightarrow> Inr ())"
      "estimated env resource bounds ccVal"
    unfolding iteration_effect_def by auto
  then show ?thesis
  proof cases
    case a
    then show ?thesis using skipped base Inr by blast
  next
    case b
    show ?thesis
    proof (cases "centroid_latlon env bounds")
      case (Inl e)
      then show ?thesis using row_only[OF base(1,2) Inr b(2,1,3)] b(4,5) by simp
    next
      case r: (Inr latlon)
      then show ?thesis using dispatched[OF base(1,2) Inr b(2,1,3) r] b(4,5) by simp
    qed
  qed
qed

lemma same_files_trans: "same_files a b \<Longrightarrow> same_files b c \<Longrightarrow> same_files a c"
  by (simp add: same_files_def)

lemma same_files_refl: "same_files a a"
  by (simp add: same_files_def)

lemma process_message_cases:
  assumes "process_message env self host secret_key resource initial = (r, s)"
  obtains
    (early) e where "prepare env host secret_key resource initial = (Inl e, s)" "r = Inl e"
  | (in_loop) timestamp all_plots s1 e where
      "prepare env host secret_key resource initial = (Inr (timestamp, all_plots), s1)"
      "for_plots env host secret_key resource timestamp all_plots (map fst all_plots) s1 = (Inl e, s)"
      "r = Inl e"
  | (finished) timestamp all_plots s1 s2 where
      "prepare env host secret_key resource initial = (Inr (timestamp, all_plots), s1)"
      "for_plots env host secret_key resource timestamp all_plots (map fst all_plots) s1 = (Inr (), s2)"
      "submit_and_annotate env self host secret_key resource (out_csv_of resource) all_plots s2 = (r, s)"
  using assms unfolding process_message_unfold
  by (auto split: prod.splits sum.splits)

lemma prepared_loop_start:
  assumes "prepare env host secret_key resource initial = (Inr (timestamp, all_plots), s1)"
  shows "closes s1 = 0" "datapoints s1 = []" "submitted s1 = []" "uploaded s1 = []"
    "acquisition_date env host secret_key resource = Inr timestamp"
    "get_site_boundaries env timestamp ''Maricopa'' = Inr all_plots"
    "opened s1 = [out_csv_of resource]" "csv_file s1 = [header_line @ newline]"
    "fixed_traits (traits s1)" "successful_plots s1 = 0"
  using prepare_prepared[of env host secret_key resource] assms
  by (simp_all add: prepared_def fixed_traits_table)

lemma prepared_early:
  assumes "prepare env host secret_key resource initial = (Inl e, s1)"
  shows "closes s1 = 0" "datapoints s1 = []" "submitted s1 = []" "uploaded s1 = []"
    "opened s1 = [] \<or> opened s1 = [out_csv_of resource]"
    "csv_file s1 = [] \<or> csv_file s1 = [header_line @ newline]"
  using prepare_prepared[of env host secret_key resource] assms
  by (simp_all add: prepared_def)

lemma for_plots_same_files:
  assumes "fixed_traits (traits s)"
      and "for_plots env host secret_key resource timestamp all_plots keys s = (r, s')"
    shows "same_files s s'"
proof -
  have "same_files s s' \<and> fixed_traits (traits s')"
  proof (rule for_plots_rule[where J = "\<lambda>r x. same_files s x", OF assms])
    show "same_files s s" by (rule same_files_refl)
  next
    fix k s1 r1 s2
    assume "same_files s s1"
       and "iteration_effect env host secret_key resource timestamp all_plots k s1 (r1, s2)"
    then show "same_files s s2"
      by (auto simp: iteration_effect_def intro: same_files_trans)
  qed
  then show ?thesis by simp
qed

lemma for_plots_dispatch:
  assumes "fixed_traits (traits s)"
      and "for_plots env host secret_key resource timestamp all_plots keys s = (r, s')"
      and "\<forall>dp\<in>set (datapoints s). create_datapoint_with_dependencies env dp = None"
    shows "\<forall>dp\<in>set (datapoints s'). \<forall>e. create_datapoint_with_dependencies env dp = Some e \<longrightarrow>
             r = Inl e \<and> dp = last (datapoints s')"
proof -
  let ?J = "\<lambda>(r::error + unit) x.
     \<forall>dp\<in>set (datapoints x). \<forall>e. create_datapoint_with_dependencies env dp = Some e \<longrightarrow>
             r = Inl e \<and> dp = last (datapoints x)"
  have "?J r s' \<and> fixed_traits (traits s')"
  proof (rule for_plots_rule[where J = ?J, OF assms(1,2)])
    show "?J (Inr ()) s" using assms(3) by simp
  next
    fix k s1 r1 s2
    assume j: "?J (Inr ()) s1"
       and eff: "iteration_effect env host secret_key resource timestamp all_plots k s1 (r1, s2)"
    from j have old: "\<forall>dp\<in>set (datapoints s1). create_datapoint_with_dependencies env dp = None"
      by (metis Inl_Inr_False not_Some_eq)
    from eff show "?J r1 s2"
    proof (cases rule: iteration_effectE)
      case skipped
      then show ?thesis using old by simp
    next
      case (row_only bounds ccVal e)
      then show ?thesis using old by simp
    next
      case (dispatched bounds ccVal latlon)
      then show ?thesis using old by (auto split: option.splits)
    qed
  qed
  then show ?thesis by simp
qed

subsection \<open>C2: an exception in clipping or estimation\<close>

text \<open>
  C2 says that an exception raised while clipping or estimating one plot is caught,
  logged with the plot's name and skips only that plot, the remaining plots, the bulk
  submission and the annotation still taking place. The handler of line 119 does catch
  it, but its logging call of line 120 passes the message alone, where every other
  logging call passes the resource first. With logging methods of the two parameters
  those calls need, the call inside the handler raises TypeError, which nothing
  catches: on the sample field, where MAC_001 fails clipping, the run ends with
  TypeError after the header, no row is written for MAC_002 or MAC_003, no data point
  is sent, the file is not closed, and nothing is submitted or annotated.
\<close>

theorem handler_log_call_aborts_run:
  "fst (process_message strict_logging_env sample_self ''https://host'' ''secret'' sample_resource initial)
     = Inl TypeError
   \<and> length (csv_file (snd (process_message strict_logging_env sample_self ''https://host'' ''secret''
                             sample_resource initial))) = 1
   \<and> datapoints (snd (process_message strict_logging_env sample_self ''https://host'' ''secret''
                        sample_resource initial)) = []
   \<and> closes (snd (process_message strict_logging_env sample_self ''https://host'' ''secret''
                    sample_resource initial)) = 0
   \<and> submitted (snd (process_message strict_logging_env sample_self ''https://host'' ''secret''
                       sample_resource initial)) = []
   \<and> uploaded (snd (process_message strict_logging_env sample_self ''https://host'' ''secret''
                      sample_resource initial)) = []"
  by code_simp

lemma split_scan_comma_length:
  "length (split_scan '','' cur s) = Suc (count_list s CHR '','')"
  by (induction s arbitrary: cur) auto

lemma count_list_filter_other:
  "c \<noteq> d \<Longrightarrow> count_list (filter (\<lambda>x. x \<noteq> d) s) c = count_list s c"
  by (induction s) auto

lemma cells_length: "length (cells line) = Suc (commas line)"
  by (simp add: cells_def commas_def split_scan_comma_length count_list_filter_other)

lemma commas_append: "commas (a @ b) = commas a + commas b"
  by (simp add: commas_def)

lemma cells_header: "length (cells (header_line @ newline)) = 9"
  by (simp add: cells_length commas_def header_line_def newline_def)

lemma cells_csv_row:
  "length (cells (csv_row timestamp cc plotname)) = 10 + commas timestamp + commas cc + commas plotname"
  by (simp add: cells_length csv_row_text commas_append) (simp add: commas_def newline_def)

text \<open>
  C7: the first line written to the output file is the header
  \<^verbatim>\<open>local_datetime,canopy_cover,access_level,species,site,citation_author,citation_year,citation_title,method\<close>,
  and every later line joins the fields of a plot's Trait Record in the order of the
  header's field names. A run that ends before line 98 writes nothing.
\<close>

theorem header_first_rows_in_field_order:
  assumes "process_message env self host secret_key resource initial = (r, s)"
  shows "header_line = py_join '','' (fst get_traits_table) \<and>
         (csv_file s = [] \<or>
          (\<exists>timestamp rows. csv_file s = (header_line @ newline) # rows \<and>
             (\<forall>row\<in>set rows. \<exists>cc plotname.
                row = record_line (trait_record (timestamp @ ''T12:00:00'') cc plotname))))"
  using process_message_rows[OF assms] by (simp add: header_join csv_row_def)

theorem header_first_rows_in_field_order_witness:
  "process_message sample_env sample_self ''https://host'' ''secret'' sample_resource initial = sample_run
   \<and> length (csv_file (snd sample_run)) = 3
   \<and> hd (csv_file (snd sample_run)) = header_line @ newline"
proof -
  have run: "process_message sample_env sample_self ''https://host'' ''secret'' sample_resource initial
               = (fst sample_run, snd sample_run)"
    by (simp add: sample_run_def)
  have len: "length (csv_file (snd sample_run)) = 3"
    unfolding sample_run_def by code_simp
  have "hd (csv_file (snd sample_run)) = header_line @ newline"
    using header_first_rows_in_field_order[OF run] len by auto
  then show ?thesis using len by (simp add: sample_run_def)
qed

text \<open>
  C10, as amended: the default \<^verbatim>\<open>citation_author\<close> is \<^verbatim>\<open>"Zongyang, Li"\<close> with its comma,
  so the header has 9 cells and every data row has 10 and as many more as there are
  commas in the timestamp, the text of the canopy-cover value and the plot name: at
  least 10, never the header's 9.
\<close>

theorem data_rows_have_more_cells_than_header:
  assumes "process_message env self host secret_key resource initial = (r, s)"
  shows "(snd get_traits_table) ''citation_author'' = Some (PyStr (CHR 0x22 # ''Zongyang, Li'' @ [CHR 0x22])) \<and>
         (csv_file s = [] \<or>
          length (cells (hd (csv_file s))) = 9 \<and>
          (\<forall>row\<in>set (tl (csv_file s)). \<exists>timestamp cc plotname.
             row = csv_row timestamp cc plotname \<and>
             length (cells row) = 10 + commas timestamp + commas cc + commas plotname))"
proof -
  have "(snd get_traits_table) ''citation_author'' = Some (PyStr (CHR 0x22 # ''Zongyang, Li'' @ [CHR 0x22]))"
    by (simp add: get_traits_table_def)
  moreover have "csv_file s = [] \<or>
          length (cells (hd (csv_file s))) = 9 \<and>
          (\<forall>row\<in>set (tl (csv_file s)). \<exists>timestamp cc plotname.
             row = csv_row timestamp cc plotname \<and>
             length (cells row) = 10 + commas timestamp + commas cc + commas plotname)"
    using process_message_rows[OF assms] cells_header cells_csv_row by fastforce
  ultimately show ?thesis by blast
qed

theorem data_rows_have_more_cells_than_header_witness:
  "process_message sample_env sample_self ''https://host'' ''secret'' sample_resource initial = sample_run
   \<and> length (csv_file (snd sample_run)) = 3
   \<and> length (cells (hd (csv_file (snd sample_run)))) = 9
   \<and> 10 \<le> length (cells (csv_file (snd sample_run) ! 1))"
proof -
  have run: "process_message sample_env sample_self ''https://host'' ''secret'' sample_resource initial
               = (fst sample_run, snd sample_run)"
    by (simp add: sample_run_def)
  have len: "length (csv_file (snd sample_run)) = 3"
    unfolding sample_run_def by code_simp
  then have ne: "csv_file (snd sample_run) \<noteq> []" by auto
  have mem: "csv_file (snd sample_run) ! 1 \<in> set (tl (csv_file (snd sample_run)))"
    using len by (cases "csv_file (snd sample_run)") auto
  have "length (cells (hd (csv_file (snd sample_run)))) = 9
        \<and> 10 \<le> length (cells (csv_file (snd sample_run) ! 1))"
    using data_rows_have_more_cells_than_header[OF run] ne mem by fastforce
  then show ?thesis using len by (simp add: sample_run_def)
qed

theorem data_row_with_eleven_cells:
  "length (cells (csv_file (snd comma_name_run) ! 1)) = 11"
  unfolding comma_name_run_def by code_simp

lemma plot_iteration_short:
  assumes "py_getitem all_plots plotname = Inr bounds"
      and "py_index (res_local_paths resource) 0 = Inr path"
      and "clip_raster env path bounds = Inr pxarray"
      and "length (shape env pxarray) < 3"
      and "log_error env [Res resource, Msg (''unexpected array shape for '' @ plotname @ '' (''
                                             @ str_tuple (shape env pxarray) @ '')'')] = None"
    shows "plot_iteration env host secret_key resource timestamp all_plots plotname s =
             (Inr (), s\<lparr>logged := logged s @
                [Err [Res resource, Msg (''unexpected array shape for '' @ plotname @ '' (''
                                         @ str_tuple (shape env pxarray) @ '')'')]]\<rparr>)"
  unfolding plot_iteration_def clip_and_estimate_def self_defs prog_defs
  using assms by simp

lemma for_plots_all_short:
  assumes "\<forall>k\<in>set keys. \<exists>bounds. py_getitem all_plots k = Inr bounds \<and> short_shape env resource bounds"
      and "\<forall>m. log_error env [Res resource, Msg m] = None"
    shows "fst (for_plots env host secret_key resource timestamp all_plots keys s) = Inr ()"
  using assms(1)
proof (induction keys arbitrary: s)
  case Nil
  then show ?case by simp
next
  case (Cons k keys)
  then obtain bounds where b: "py_getitem all_plots k = Inr bounds" "short_shape env resource bounds"
    by auto
  from b(2) obtain path pxarray where px: "py_index (res_local_paths resource) 0 = Inr path"
    "clip_raster env path bounds = Inr pxarray" "length (shape env pxarray) < 3"
    by (auto simp: short_shape_def split: sum.splits)
  have "plot_iteration env host secret_key resource timestamp all_plots k s =
             (Inr (), s\<lparr>logged := logged s @
                [Err [Res resource, Msg (''unexpected array shape for '' @ k @ '' (''
                                         @ str_tuple (shape env pxarray) @ '')'')]]\<rparr>)"
    using plot_iteration_short[OF b(1) px] assms(2) by blast
  then show ?case using Cons by simp
qed

text \<open>
  C3, as amended: the data-point call of lines 136-138 comes after the \<^verbatim>\<open>try\<close> statement
  of lines 108-121, not inside it. An exception it raises is not caught: it ends the
  run as the exception of \<^verbatim>\<open>process_message\<close>, the call that raised is the last one
  made, the remaining plots are not processed, the file is not closed, and nothing is
  submitted or annotated.
\<close>

theorem dispatch_exception_ends_run:
  assumes "process_message env self host secret_key resource initial = (r, s)"
      and "dp \<in> set (datapoints s)"
      and "create_datapoint_with_dependencies env dp = Some e"
    shows "r = Inl e \<and> dp = last (datapoints s) \<and> closes s = 0 \<and> submitted s = [] \<and> uploaded s = []"
  using assms(1)
proof (cases rule: process_message_cases)
  case (early e')
  then show ?thesis using prepared_early(2)[OF early(1)] assms(2) by simp
next
  case (in_loop timestamp all_plots s1 e')
  note st = prepared_loop_start[OF in_loop(1)]
  have d: "\<forall>dp\<in>set (datapoints s1). create_datapoint_with_dependencies env dp = None"
    using st(2) by simp
  have "r = Inl e \<and> dp = last (datapoints s)"
    using for_plots_dispatch[OF st(9) in_loop(2) d] assms(2,3) in_loop(3) by blast
  moreover have "same_files s1 s"
    by (rule for_plots_same_files[OF st(9) in_loop(2)])
  ultimately show ?thesis using st(1,3,4) by (simp add: same_files_def)
next
  case (finished timestamp all_plots s1 s2)
  note st = prepared_loop_start[OF finished(1)]
  have d: "\<forall>dp\<in>set (datapoints s1). create_datapoint_with_dependencies env dp = None"
    using st(2) by simp
  have "\<forall>dp\<in>set (datapoints s2). create_datapoint_with_dependencies env dp \<noteq> Some e"
    using for_plots_dispatch[OF st(9) finished(2) d] by blast
  moreover have "datapoints s = datapoints s2"
    using submit_and_annotate_effect[of env self host resource "out_csv_of resource" all_plots s2 secret_key]
      finished(3) by (simp add: annotate_effect_def)
  ultimately show ?thesis using assms(2,3) by simp
qed

theorem dispatch_exception_ends_run_witness:
  "hd (datapoints (snd dispatch_fails_run)) \<in> set (datapoints (snd dispatch_fails_run))
   \<and> fst dispatch_fails_run = Inl (Raised ''geostreams'')
   \<and> closes (snd dispatch_fails_run) = 0
   \<and> submitted (snd dispatch_fails_run) = []
   \<and> uploaded (snd dispatch_fails_run) = []"
proof -
  let ?env = "sample_env\<lparr>create_datapoint_with_dependencies := (\<lambda>dp. Some (Raised ''geostreams''))\<rparr>"
  have run: "process_message ?env sample_self ''https://host'' ''secret'' sample_resource initial
               = (fst dispatch_fails_run, snd dispatch_fails_run)"
    by (simp add: dispatch_fails_run_def)
  have "length (datapoints (snd dispatch_fails_run)) = 1"
    unfolding dispatch_fails_run_def by code_simp
  then have mem: "hd (datapoints (snd dispatch_fails_run)) \<in> set (datapoints (snd dispatch_fails_run))"
    by (cases "datapoints (snd dispatch_fails_run)") auto
  have raises: "create_datapoint_with_dependencies ?env (hd (datapoints (snd dispatch_fails_run)))
                  = Some (Raised ''geostreams'')"
    by simp
  show ?thesis
    using dispatch_exception_ends_run[OF run mem raises] mem by simp
qed

theorem dispatch_exception_not_caught:
  "fst dispatch_fails_run = Inl (Raised ''geostreams'')
   \<and> length (csv_file (snd dispatch_fails_run)) = 2
   \<and> length (datapoints (snd dispatch_fails_run)) = 1"
  unfolding dispatch_fails_run_def by code_simp

text \<open>
  C4, as amended: \<^verbatim>\<open>process_message\<close> closes the file exactly once when the preparation
  and the plot loop are left without an exception, and not at all when an exception
  leaves one of them: there is no \<^verbatim>\<open>finally\<close>. The loop is left without an exception
  when there are no plots, and when every plot is skipped for the shape of its array
  and the logging call of line 111 returns.
\<close>

theorem closed_once_iff_loop_left_normally:
  "closes (snd (process_message env self host secret_key resource initial)) =
     (case prepare env host secret_key resource initial of
        (Inl e, s1) \<Rightarrow> 0
      | (Inr (timestamp, all_plots), s1) \<Rightarrow>
          (case for_plots env host secret_key resource timestamp all_plots (map fst all_plots) s1 of
             (Inl e, s2) \<Rightarrow> 0
           | (Inr u, s2) \<Rightarrow> 1))
   \<and> ((\<forall>k\<in>set keys. \<exists>bounds. py_getitem plots k = Inr bounds \<and> short_shape env resource bounds)
        \<and> (\<forall>m. log_error env [Res resource, Msg m] = None)
      \<longrightarrow> fst (for_plots env host secret_key resource date plots keys s0) = Inr ())"
proof -
  obtain r s where run: "process_message env self host secret_key resource initial = (r, s)"
    by fastforce
  have "closes s =
     (case prepare env host secret_key resource initial of
        (Inl e, s1) \<Rightarrow> 0
      | (Inr (timestamp, all_plots), s1) \<Rightarrow>
          (case for_plots env host secret_key resource timestamp all_plots (map fst all_plots) s1 of
             (Inl e, s2) \<Rightarrow> 0
           | (Inr u, s2) \<Rightarrow> 1))"
    using run
  proof (cases rule: process_message_cases)
    case (early e)
    then show ?thesis using prepared_early(1)[OF early(1)] by simp
  next
    case (in_loop timestamp all_plots s1 e)
    note st = prepared_loop_start[OF in_loop(1)]
    have "same_files s1 s" by (rule for_plots_same_files[OF st(9) in_loop(2)])
    then show ?thesis using in_loop st(1) by (simp add: same_files_def)
  next
    case (finished timestamp all_plots s1 s2)
    note st = prepared_loop_start[OF finished(1)]
    have "same_files s1 s2" by (rule for_plots_same_files[OF st(9) finished(2)])
    moreover have "closes s = closes s2 + 1"
      using submit_and_annotate_effect[of env self host resource "out_csv_of resource" all_plots s2 secret_key]
        finished(3) by (simp add: annotate_effect_def)
    ultimately show ?thesis using finished st(1) by (simp add: same_files_def)
  qed
  then show ?thesis using run for_plots_all_short by fastforce
qed

theorem closed_once_iff_loop_left_normally_witness:
  "closes (snd flat_run) = 1"
proof -
  let ?plots = "[(''MAC_001'', ''b1''), (''MAC_002'', ''b2''), (''MAC_003'', ''b3'')]"
  have "fst (prepare flat_env ''https://host'' ''secret'' sample_resource initial)
          = Inr (''2016-07-01'', ?plots)"
    unfolding flat_env_def by code_simp
  then obtain s1 where p: "prepare flat_env ''https://host'' ''secret'' sample_resource initial
          = (Inr (''2016-07-01'', ?plots), s1)"
    by (metis prod.collapse)
  have short: "\<forall>k\<in>set (map fst ?plots). \<exists>bounds. py_getitem ?plots k = Inr bounds \<and>
                 short_shape flat_env sample_resource bounds"
    by (simp add: py_getitem_def short_shape_def flat_env_def sample_env_def sample_resource_def
          py_index_def)
  have logs: "\<forall>m. log_error flat_env [Res sample_resource, Msg m] = None"
    by (simp add: flat_env_def sample_env_def)
  have "fst (for_plots flat_env ''https://host'' ''secret'' sample_resource ''2016-07-01'' ?plots
               (map fst ?plots) s1) = Inr ()"
    using closed_once_iff_loop_left_normally[of flat_env sample_self "''https://host''" "''secret''"
        sample_resource "map fst ?plots" ?plots "''2016-07-01''" s1] short logs
    by blast
  then show ?thesis
    using closed_once_iff_loop_left_normally[of flat_env sample_self "''https://host''" "''secret''"
        sample_resource "[]" "[]" "[]" s1] p
    by (auto simp: flat_run_def split: prod.splits sum.splits)
qed

theorem file_left_open_when_enumeration_raises:
  "fst enumeration_fails_run = Inl (Raised ''betydb'')
   \<and> length (opened (snd enumeration_fails_run)) = 1
   \<and> closes (snd enumeration_fails_run) = 0"
  unfolding enumeration_fails_run_def by code_simp

lemma for_plots_rows_and_datapoints:
  assumes "fixed_traits (traits s)"
      and "for_plots env host secret_key resource timestamp all_plots keys s = (r, s')"
    shows "\<exists>recs extra.
             datapoints s' = datapoints s @ map fst recs \<and>
             csv_file s' = csv_file s
               @ map (\<lambda>(dp, name). csv_row (dp_filter_date dp) (str_float env (dp_canopy_cover dp)) name) recs
               @ extra \<and>
             (\<forall>(dp, name)\<in>set recs. dp_filter_date dp = timestamp \<and>
                (\<exists>bounds. py_getitem all_plots name = Inr bounds \<and>
                           centroid_latlon env bounds = Inr (dp_latlon dp))) \<and>
             (extra = [] \<or>
              (\<exists>name bounds ccVal e. extra = [csv_row timestamp (str_float env ccVal) name] \<and>
                 py_getitem all_plots name = Inr bounds \<and> centroid_latlon env bounds = Inl e \<and>
                 r = Inl e))"
proof -
  let ?row = "\<lambda>(dp, name). csv_row (dp_filter_date dp) (str_float env (dp_canopy_cover dp)) name"
  let ?ok = "\<lambda>recs. \<forall>(dp, name)\<in>set recs. dp_filter_date dp = timestamp \<and>
                (\<exists>bounds. py_getitem all_plots name = Inr bounds \<and>
                           centroid_latlon env bounds = Inr (dp_latlon dp))"
  let ?J = "\<lambda>(r::error + unit) x. \<exists>recs extra.
             datapoints x = datapoints s @ map fst recs \<and>
             csv_file x = csv_file s @ map ?row recs @ extra \<and> ?ok recs \<and>
             (extra = [] \<or>
              (\<exists>name bounds ccVal e. extra = [csv_row timestamp (str_float env ccVal) name] \<and>
                 py_getitem all_plots name = Inr bounds \<and> centroid_latlon env bounds = Inl e \<and>
                 r = Inl e))"
  have "?J r s' \<and> fixed_traits (traits s')"
  proof (rule for_plots_rule[where J = ?J, OF assms])
    have "datapoints s = datapoints s @ map fst [] \<and> csv_file s = csv_file s @ map ?row [] @ [] \<and> ?ok []"
      by simp
    then show "?J (Inr ()) s" by blast
  next
    fix k s1 r1 s2
    assume j: "?J (Inr ()) s1"
       and eff: "iteration_effect env host secret_key resource timestamp all_plots k s1 (r1, s2)"
    from j obtain recs where recs: "datapoints s1 = datapoints s @ map fst recs"
      "csv_file s1 = csv_file s @ map ?row recs" "?ok recs"
      by auto
    from eff show "?J r1 s2"
    proof (cases rule: iteration_effectE)
      case skipped
      then have "datapoints s2 = datapoints s @ map fst recs \<and>
                 csv_file s2 = csv_file s @ map ?row recs @ [] \<and> ?ok recs"
        using recs by simp
      then show ?thesis by blast
    next
      case (row_only bounds ccVal e)
      then have "datapoints s2 = datapoints s @ map fst recs \<and>
                 csv_file s2 = csv_file s @ map ?row recs @ [csv_row timestamp (str_float env ccVal) k] \<and>
                 ?ok recs \<and>
                 py_getitem all_plots k = Inr bounds \<and> centroid_latlon env bounds = Inl e \<and> r1 = Inl e"
        using recs by simp
      then show ?thesis by blast
    next
      case (dispatched bounds ccVal latlon)
      let ?dp = "datapoint_of host secret_key resource timestamp ccVal latlon"
      have "?ok (recs @ [(?dp, k)])"
        using recs(3) dispatched(3,7) by (auto simp: datapoint_of_def)
      moreover have "datapoints s2 = datapoints s @ map fst (recs @ [(?dp, k)])"
        using recs(1) dispatched(8) by simp
      moreover have "csv_file s2 = csv_file s @ map ?row (recs @ [(?dp, k)]) @ []"
        using recs(2) dispatched(6) by (simp add: datapoint_of_def)
      ultimately show ?thesis by blast
    qed
  qed
  then show ?thesis by simp
qed

text \<open>
  C1, as amended: in every run the data rows of the file are, in order, the rows of the
  data points dispatched: each row carries the text of its data point's canopy-cover
  value and the name of the plot whose centroid the data point carries. The row is
  written before the centroid is computed and the data point dispatched, and neither
  step is guarded: when the centroid computation of a plot raises, the run ends with
  that exception and the file ends with the row of that plot, for which no data point
  was dispatched. There is never more than this one row without a data point.
\<close>

theorem rows_match_datapoints:
  assumes "process_message env self host secret_key resource initial = (r, s)"
  shows "\<exists>recs extra.
           datapoints s = map fst recs \<and>
           tl (csv_file s)
             = map (\<lambda>(dp, name). csv_row (dp_filter_date dp) (str_float env (dp_canopy_cover dp)) name) recs
               @ extra \<and>
           (\<forall>(dp, name)\<in>set recs. \<exists>all_plots bounds.
              get_site_boundaries env (dp_filter_date dp) ''Maricopa'' = Inr all_plots \<and>
              py_getitem all_plots name = Inr bounds \<and>
              centroid_latlon env bounds = Inr (dp_latlon dp)) \<and>
           (extra = [] \<or>
            (\<exists>timestamp all_plots name bounds ccVal e.
               extra = [csv_row timestamp (str_float env ccVal) name] \<and>
               get_site_boundaries env timestamp ''Maricopa'' = Inr all_plots \<and>
               py_getitem all_plots name = Inr bounds \<and> centroid_latlon env bounds = Inl e \<and>
               r = Inl e))"
proof -
  let ?row = "\<lambda>(dp, name). csv_row (dp_filter_date dp) (str_float env (dp_canopy_cover dp)) name"
  have loop: "?thesis"
    if p: "prepare env host secret_key resource initial = (Inr (timestamp, all_plots), s1)"
      and l: "for_plots env host secret_key resource timestamp all_plots (map fst all_plots) s1 = (r2, s2)"
      and same: "datapoints s = datapoints s2" "csv_file s = csv_file s2"
      and res: "\<And>e. r2 = Inl e \<Longrightarrow> r = Inl e"
    for timestamp all_plots s1 r2 s2
  proof -
    note st = prepared_loop_start[OF p]
    from for_plots_rows_and_datapoints[OF st(9) l]
    obtain recs extra where f:
      "datapoints s2 = datapoints s1 @ map fst recs"
      "csv_file s2 = csv_file s1 @ map ?row recs @ extra"
      "\<forall>(dp, name)\<in>set recs. dp_filter_date dp = timestamp \<and>
         (\<exists>bounds. py_getitem all_plots name = Inr bounds \<and>
                    centroid_latlon env bounds = Inr (dp_latlon dp))"
      "extra = [] \<or>
       (\<exists>name bounds ccVal e. extra = [csv_row timestamp (str_float env ccVal) name] \<and>
          py_getitem all_plots name = Inr bounds \<and> centroid_latlon env bounds = Inl e \<and>
          r2 = Inl e)"
      by blast
    have a: "datapoints s = map fst recs"
      using f(1) st(2) same(1) by simp
    have b: "tl (csv_file s) = map ?row recs @ extra"
      using f(2) st(8) same(2) by simp
    have c: "\<forall>(dp, name)\<in>set recs. \<exists>all_plots bounds.
              get_site_boundaries env (dp_filter_date dp) ''Maricopa'' = Inr all_plots \<and>
              py_getitem all_plots name = Inr bounds \<and>
              centroid_latlon env bounds = Inr (dp_latlon dp)"
      using f(3) st(6) by fastforce
    have d: "extra = [] \<or>
            (\<exists>timestamp all_plots name bounds ccVal e.
               extra = [csv_row timestamp (str_float env ccVal) name] \<and>
               get_site_boundaries env timestamp ''Maricopa'' = Inr all_plots \<and>
               py_getitem all_plots name = Inr bounds \<and> centroid_latlon env bounds = Inl e \<and>
               r = Inl e)"
      using f(4) st(6) res by blast
    from a b c d show ?thesis by blast
  qed
  from assms show ?thesis
  proof (cases rule: process_message_cases)
    case (early e)
    have "datapoints s = map fst [] \<and> tl (csv_file s) = map ?row [] @ []"
      using prepared_early(2,6)[OF early(1)] by auto
    then show ?thesis by force
  next
    case (in_loop timestamp all_plots s1 e)
    then show ?thesis using loop[OF in_loop(1,2)] by simp
  next
    case (finished timestamp all_plots s1 s2)
    have "datapoints s = datapoints s2" "csv_file s = csv_file s2"
      using submit_and_annotate_effect[of env self host resource "out_csv_of resource" all_plots s2 secret_key]
        finished(3) by (simp_all add: annotate_effect_def)
    then show ?thesis using loop[OF finished(1,2)] by simp
  qed
qed

theorem rows_match_datapoints_witness:
  "fst sample_run = Inr ()
   \<and> length (tl (csv_file (snd sample_run))) = length (datapoints (snd sample_run))"
proof -
  have run: "process_message sample_env sample_self ''https://host'' ''secret'' sample_resource initial
               = (fst sample_run, snd sample_run)"
    by (simp add: sample_run_def)
  have ok: "fst sample_run = Inr ()"
    unfolding sample_run_def by code_simp
  from rows_match_datapoints[OF run] ok
  obtain recs :: "(string datapoint \<times> string) list" where
    "datapoints (snd sample_run) = map fst recs"
    "tl (csv_file (snd sample_run))
       = map (\<lambda>(dp, name). csv_row (dp_filter_date dp) (str_float sample_env (dp_canopy_cover dp)) name) recs"
    by auto
  then show ?thesis using ok by simp
qed

theorem row_without_datapoint:
  "length (tl (csv_file (snd centroid_fails_run))) = 1
   \<and> datapoints (snd centroid_fails_run) = []"
  unfolding centroid_fails_run_def by code_simp

lemma tif_prefix_of_append:
  assumes "prefix ''.tif'' (s @ ''.tif'')" and "s \<noteq> []"
  shows "prefix ''.tif'' s"
proof -
  consider a where "s = [a]" | a b where "s = [a, b]" | a b c where "s = [a, b, c]"
    | a b c d t where "s = a # b # c # d # t"
    using assms(2)
    by (metis list.exhaust)
  then show ?thesis using assms(1) by cases auto
qed

lemma replace_scan_tif:
  assumes "\<not> sublist ''.tif'' stem"
  shows "replace_scan ''.tif'' new (stem @ ''.tif'') = stem @ new"
  using assms
proof (induction stem)
  case Nil
  then show ?case by simp
next
  case (Cons c cs)
  have np: "\<not> prefix ''.tif'' (c # cs)" and ns: "\<not> sublist ''.tif'' cs"
    using Cons.prems by (auto simp: sublist_Cons_right)
  have "\<not> prefix ''.tif'' ((c # cs) @ ''.tif'')"
    using np tif_prefix_of_append[of "c # cs"] by blast
  then have np': "\<not> (''.tif'' \<noteq> [] \<and> prefix ''.tif'' (c # (cs @ ''.tif'')))"
    by simp
  have step: "replace_scan ''.tif'' new (c # (cs @ ''.tif''))
                = c # replace_scan ''.tif'' new (cs @ ''.tif'')"
    by (simp only: replace_scan.simps np' if_False)
  show ?case
    by (simp only: append_Cons step Cons.IH[OF ns])
qed

lemma strip_tif: "replace_extension (stem @ ''.tif'') ending = stem @ ending"
  by (simp add: replace_extension_def Let_def)

lemma process_message_opened:
  assumes "process_message env self host secret_key resource initial = (r, s)"
  shows "opened s = [] \<or> opened s = [out_csv_of resource]"
  using assms
proof (cases rule: process_message_cases)
  case (early e)
  then show ?thesis using prepared_early(5)[OF early(1)] by simp
next
  case (in_loop timestamp all_plots s1 e)
  note st = prepared_loop_start[OF in_loop(1)]
  have "same_files s1 s" by (rule for_plots_same_files[OF st(9) in_loop(2)])
  then show ?thesis using st(7) by (simp add: same_files_def)
next
  case (finished timestamp all_plots s1 s2)
  note st = prepared_loop_start[OF finished(1)]
  have "same_files s1 s2" by (rule for_plots_same_files[OF st(9) finished(2)])
  moreover have "opened s = opened s2"
    using submit_and_annotate_effect[of env self host resource "out_csv_of resource" all_plots s2 secret_key]
      finished(3) by (simp add: annotate_effect_def)
  ultimately show ?thesis using st(7) by (simp add: same_files_def)
qed

text \<open>
  C9: with an empty mapping of plots the loop body never runs: the file holds the header
  line only and is closed, no data point is sent, and the metadata attached to the
  dataset is built from \<^verbatim>\<open>plots_processed\<close> = 0 and \<^verbatim>\<open>plots_skipped\<close> = 0. The run
  does not complete, though: line 154 calls \<^verbatim>\<open>end_message\<close> without the resource that
  line 86 passes to \<^verbatim>\<open>start_message\<close>, and with methods declared the way the other
  calls use them this last call raises TypeError, which ends \<^verbatim>\<open>process_message\<close>.
\<close>

theorem empty_field_run_ends_in_type_error:
  "fst empty_field_run = Inl TypeError
   \<and> csv_file (snd empty_field_run) = [header_line @ newline]
   \<and> closes (snd empty_field_run) = 1
   \<and> datapoints (snd empty_field_run) = []
   \<and> uploaded (snd empty_field_run)
       = [(''d1'', \<lparr>plots_processed = 0, plots_skipped = 0,
            betydb_link = ''https://terraref.ncsa.illinois.edu/bety/api/beta/variables?name=canopy_cover''\<rparr>)]"
  unfolding empty_field_run_def base_class_env_def by code_simp

text \<open>
  C5: the comment of line 88 and the claim have the file written in the directory of
  the source image under the image's name with its extension replaced. Line 91 builds
  the path from \<^verbatim>\<open>resource['name']\<close> instead of the downloaded file
  \<^verbatim>\<open>resource['local_paths'][0]\<close>, and by replacing the text \<^verbatim>\<open>.tif\<close> wherever it occurs.
  For the sample resource, whose image is \<^verbatim>\<open>/tmp/f1.tif\<close>, the one path opened has no
  directory part, so the file is written to the working directory and not to
  \<^verbatim>\<open>/tmp\<close>; for a name ending in \<^verbatim>\<open>.tiff\<close> the path ends in \<^verbatim>\<open>_canopycover.csvf\<close>.
\<close>

theorem output_file_not_beside_source_image:
  "opened (snd sample_run) = [''fullfield_L1_ua-mac_2016-07-01_rgb_thumb_canopycover.csv'']
   \<and> dirname (hd (opened (snd sample_run))) = []
   \<and> dirname (hd (res_local_paths sample_resource)) = ''/tmp''
   \<and> out_csv_of tiff_resource = ''fullfield_L1_ua-mac_2016-07-01_rgb_thumb_canopycover.csvf''
   \<and> replace_extension (res_name tiff_resource) ''_canopycover.csv''
       = ''fullfield_L1_ua-mac_2016-07-01_rgb_thumb_canopycover.csv''"
  unfolding sample_run_def tiff_resource_def by code_simp




lemma for_plots_datapoints_of_plots:
  assumes "fixed_traits (traits s)"
      and "for_plots env host secret_key resource timestamp all_plots keys s = (r, s')"
    shows "\<exists>recs. datapoints s' = datapoints s @ map fst recs \<and> subseq (map snd recs) keys \<and>
             (\<forall>(dp, plotname)\<in>set recs. \<exists>bounds ccVal latlon.
                py_getitem all_plots plotname = Inr bounds \<and>
                estimated env resource bounds ccVal \<and>
                centroid_latlon env bounds = Inr latlon \<and>
                dp = datapoint_of host secret_key resource timestamp ccVal latlon)"
  using assms
proof (induction keys arbitrary: s)
  case Nil
  then have "datapoints s' = datapoints s @ map fst []" by simp
  then show ?case by force
next
  case (Cons k keys)
  let ?tied = "\<lambda>recs. \<forall>(dp, plotname)\<in>set recs. \<exists>bounds ccVal latlon.
                py_getitem all_plots plotname = Inr bounds \<and>
                estimated env resource bounds ccVal \<and>
                centroid_latlon env bounds = Inr latlon \<and>
                dp = datapoint_of host secret_key resource timestamp ccVal latlon"
  obtain r1 s1 where it:
    "plot_iteration env host secret_key resource timestamp all_plots k s = (r1, s1)"
    by fastforce
  have eff: "iteration_effect env host secret_key resource timestamp all_plots k s (r1, s1)"
    using plot_iteration_effect[OF Cons.prems(1), of env host secret_key resource timestamp all_plots k] it
    by simp
  have ft1: "fixed_traits (traits s1)"
    using eff by (simp add: iteration_effect_def)
  have rest: "\<exists>recs. datapoints s' = datapoints s1 @ map fst recs \<and> subseq (map snd recs) keys \<and>
                ?tied recs"
  proof (cases r1)
    case (Inl e)
    then have "s' = s1" using Cons.prems(2) it by simp
    then have "datapoints s' = datapoints s1 @ map fst [] \<and> subseq (map snd []) keys \<and> ?tied []"
      by simp
    then show ?thesis by blast
  next
    case (Inr u)
    then have "for_plots env host secret_key resource timestamp all_plots keys s1 = (r, s')"
      using Cons.prems(2) it by simp
    then show ?thesis using Cons.IH[OF ft1] by blast
  qed
  then obtain recs where recs: "datapoints s' = datapoints s1 @ map fst recs"
    "subseq (map snd recs) keys" "?tied recs" by blast
  from eff show ?case
  proof (cases rule: iteration_effectE)
    case skipped
    have "datapoints s' = datapoints s @ map fst recs \<and> subseq (map snd recs) (k # keys) \<and> ?tied recs"
      using recs skipped(4) by (simp add: list_emb_Cons)
    then show ?thesis by blast
  next
    case (row_only bounds ccVal e)
    have "datapoints s' = datapoints s @ map fst recs \<and> subseq (map snd recs) (k # keys) \<and> ?tied recs"
      using recs row_only(7) by (simp add: list_emb_Cons)
    then show ?thesis by blast
  next
    case (dispatched bounds ccVal latlon)
    let ?dp = "datapoint_of host secret_key resource timestamp ccVal latlon"
    have new: "\<exists>bounds' ccVal' latlon'.
                py_getitem all_plots k = Inr bounds' \<and>
                estimated env resource bounds' ccVal' \<and>
                centroid_latlon env bounds' = Inr latlon' \<and>
                ?dp = datapoint_of host secret_key resource timestamp ccVal' latlon'"
      using dispatched(3,7,10) by blast
    have "?tied ((?dp, k) # recs)"
      using recs(3) new by simp
    moreover have "datapoints s' = datapoints s @ map fst ((?dp, k) # recs)"
      using recs(1) dispatched(8) by simp
    moreover have "subseq (map snd ((?dp, k) # recs)) (k # keys)"
      using recs(2) by simp
    ultimately show ?thesis by blast
  qed
qed

text \<open>
  C8: the data points of a run are, in the order of the enumeration, those of plots of
  the field, each plot at most once, and the data point of a plot carries the canopy
  cover estimated for that plot's boundary, the entries 1 and 0, in this order, of the
  centroid of that same boundary (lat, lon from the centroid's lon, lat), and as start
  and end time the acquisition date followed by \<^verbatim>\<open>T12:00:00-07:00\<close>.
\<close>

theorem each_datapoint_carries_its_plots_centroid:
  assumes "process_message env self host secret_key resource initial = (r, s)"
  shows "\<exists>recs. datapoints s = map fst recs \<and>
           (\<forall>(dp, plotname)\<in>set recs. \<exists>timestamp all_plots bounds centroid_lonlat lon lat.
              acquisition_date env host secret_key resource = Inr timestamp \<and>
              get_site_boundaries env timestamp ''Maricopa'' = Inr all_plots \<and>
              subseq (map snd recs) (map fst all_plots) \<and>
              py_getitem all_plots plotname = Inr bounds \<and>
              estimated env resource bounds (dp_canopy_cover dp) \<and>
              centroid_lonlat_of env bounds = Inr centroid_lonlat \<and>
              subscript_int centroid_lonlat 0 = Inr lon \<and>
              subscript_int centroid_lonlat 1 = Inr lat \<and>
              dp_latlon dp = (lat, lon) \<and>
              dp_start_time dp = timestamp @ ''T12:00:00-07:00'' \<and>
              dp_end_time dp = timestamp @ ''T12:00:00-07:00'')"
proof -
  have loop: "?thesis"
    if p: "prepare env host secret_key resource initial = (Inr (timestamp, all_plots), s1)"
      and l: "for_plots env host secret_key resource timestamp all_plots (map fst all_plots) s1 = (r2, s2)"
      and same: "datapoints s = datapoints s2"
    for timestamp all_plots s1 r2 s2
  proof -
    note st = prepared_loop_start[OF p]
    from for_plots_datapoints_of_plots[OF st(9) l]
    obtain recs where recs: "datapoints s2 = datapoints s1 @ map fst recs"
      "subseq (map snd recs) (map fst all_plots)"
      "\<forall>(dp, plotname)\<in>set recs. \<exists>bounds ccVal latlon.
         py_getitem all_plots plotname = Inr bounds \<and>
         estimated env resource bounds ccVal \<and>
         centroid_latlon env bounds = Inr latlon \<and>
         dp = datapoint_of host secret_key resource timestamp ccVal latlon"
      by blast
    have "\<forall>(dp, plotname)\<in>set recs. \<exists>timestamp all_plots bounds centroid_lonlat lon lat.
              acquisition_date env host secret_key resource = Inr timestamp \<and>
              get_site_boundaries env timestamp ''Maricopa'' = Inr all_plots \<and>
              subseq (map snd recs) (map fst all_plots) \<and>
              py_getitem all_plots plotname = Inr bounds \<and>
              estimated env resource bounds (dp_canopy_cover dp) \<and>
              centroid_lonlat_of env bounds = Inr centroid_lonlat \<and>
              subscript_int centroid_lonlat 0 = Inr lon \<and>
              subscript_int centroid_lonlat 1 = Inr lat \<and>
              dp_latlon dp = (lat, lon) \<and>
              dp_start_time dp = timestamp @ ''T12:00:00-07:00'' \<and>
              dp_end_time dp = timestamp @ ''T12:00:00-07:00''"
    proof (clarify)
      fix dp plotname
      assume m: "(dp, plotname) \<in> set recs"
      from recs(3) m obtain bounds ccVal latlon where f:
        "py_getitem all_plots plotname = Inr bounds" "estimated env resource bounds ccVal"
        "centroid_latlon env bounds = Inr latlon"
        "dp = datapoint_of host secret_key resource timestamp ccVal latlon"
        by blast
      from f(3) obtain centroid_lonlat lon lat where c:
        "centroid_lonlat_of env bounds = Inr centroid_lonlat"
        "subscript_int centroid_lonlat 0 = Inr lon" "subscript_int centroid_lonlat 1 = Inr lat"
        "latlon = (lat, lon)"
        by (auto simp: centroid_latlon_def split: sum.splits)
      show "\<exists>timestamp all_plots bounds centroid_lonlat lon lat.
              acquisition_date env host secret_key resource = Inr timestamp \<and>
              get_site_boundaries env timestamp ''Maricopa'' = Inr all_plots \<and>
              subseq (map snd recs) (map fst all_plots) \<and>
              py_getitem all_plots plotname = Inr bounds \<and>
              estimated env resource bounds (dp_canopy_cover dp) \<and>
              centroid_lonlat_of env bounds = Inr centroid_lonlat \<and>
              subscript_int centroid_lonlat 0 = Inr lon \<and>
              subscript_int centroid_lonlat 1 = Inr lat \<and>
              dp_latlon dp = (lat, lon) \<and>
              dp_start_time dp = timestamp @ ''T12:00:00-07:00'' \<and>
              dp_end_time dp = timestamp @ ''T12:00:00-07:00''"
        using st(5,6) recs(2) f(1,2) c(1,2,3)
        by (intro exI[of _ timestamp] exI[of _ all_plots] exI[of _ bounds]
              exI[of _ centroid_lonlat] exI[of _ lon] exI[of _ lat])
           (simp add: f(4) c(4) datapoint_of_def)
    qed
    moreover have "datapoints s = map fst recs"
      using recs(1) st(2) same by simp
    ultimately show ?thesis by blast
  qed
  from assms show ?thesis
  proof (cases rule: process_message_cases)
    case (early e)
    have "datapoints s = map fst []"
      using prepared_early(2)[OF early(1)] by simp
    then show ?thesis by force
  next
    case (in_loop timestamp all_plots s1 e)
    then show ?thesis using loop[OF in_loop(1,2)] by simp
  next
    case (finished timestamp all_plots s1 s2)
    have "datapoints s = datapoints s2"
      using submit_and_annotate_effect[of env self host resource "out_csv_of resource" all_plots s2 secret_key]
        finished(3) by (simp add: annotate_effect_def)
    then show ?thesis using loop[OF finished(1,2)] by simp
  qed
qed

theorem each_datapoint_carries_its_plots_centroid_witness:
  "dp_canopy_cover (datapoints (snd two_centroids_run) ! 1) = ''0.57''
   \<and> dp_latlon (datapoints (snd two_centroids_run) ! 1) = (JNum ''33.08'', JNum ''-111.98'')
   \<and> dp_start_time (datapoints (snd two_centroids_run) ! 1) = ''2016-07-01T12:00:00-07:00''
   \<and> dp_end_time (datapoints (snd two_centroids_run) ! 1) = ''2016-07-01T12:00:00-07:00''"
proof -
  let ?dps = "datapoints (snd two_centroids_run)"
  have run: "process_message two_centroids_env sample_self ''https://host'' ''secret'' sample_resource
               initial = (fst two_centroids_run, snd two_centroids_run)"
    by (simp add: two_centroids_run_def)
  have len: "length ?dps = 2"
    unfolding two_centroids_run_def two_centroids_env_def by code_simp
  have cc: "dp_canopy_cover (?dps ! 1) = ''0.57''"
    unfolding two_centroids_run_def two_centroids_env_def by code_simp
  from each_datapoint_carries_its_plots_centroid[OF run]
  obtain recs where recs: "?dps = map fst recs"
    and tie: "\<forall>(dp, plotname)\<in>set recs. \<exists>timestamp all_plots bounds centroid_lonlat lon lat.
              acquisition_date two_centroids_env ''https://host'' ''secret'' sample_resource = Inr timestamp \<and>
              get_site_boundaries two_centroids_env timestamp ''Maricopa'' = Inr all_plots \<and>
              subseq (map snd recs) (map fst all_plots) \<and>
              py_getitem all_plots plotname = Inr bounds \<and>
              estimated two_centroids_env sample_resource bounds (dp_canopy_cover dp) \<and>
              centroid_lonlat_of two_centroids_env bounds = Inr centroid_lonlat \<and>
              subscript_int centroid_lonlat 0 = Inr lon \<and>
              subscript_int centroid_lonlat 1 = Inr lat \<and>
              dp_latlon dp = (lat, lon) \<and>
              dp_start_time dp = timestamp @ ''T12:00:00-07:00'' \<and>
              dp_end_time dp = timestamp @ ''T12:00:00-07:00''"
    by blast
  have lr: "length recs = 2" using len recs by (metis length_map)
  then have mem: "recs ! 1 \<in> set recs" by simp
  obtain dp name where rn: "recs ! 1 = (dp, name)" by fastforce
  have dp: "?dps ! 1 = dp" using recs rn lr by simp
  from tie mem rn obtain timestamp all_plots bounds centroid_lonlat lon lat where f:
    "acquisition_date two_centroids_env ''https://host'' ''secret'' sample_resource = Inr timestamp"
    "get_site_boundaries two_centroids_env timestamp ''Maricopa'' = Inr all_plots"
    "py_getitem all_plots name = Inr bounds"
    "estimated two_centroids_env sample_resource bounds (dp_canopy_cover dp)"
    "centroid_lonlat_of two_centroids_env bounds = Inr centroid_lonlat"
    "subscript_int centroid_lonlat 0 = Inr lon" "subscript_int centroid_lonlat 1 = Inr lat"
    "dp_latlon dp = (lat, lon)"
    "dp_start_time dp = timestamp @ ''T12:00:00-07:00''"
    "dp_end_time dp = timestamp @ ''T12:00:00-07:00''"
    by fastforce
  have date: "acquisition_date two_centroids_env ''https://host'' ''secret'' sample_resource
                = Inr ''2016-07-01''"
    unfolding two_centroids_env_def by code_simp
  then have ts: "timestamp = ''2016-07-01''" using f(1) by simp
  from f(2) have ap: "all_plots = [(''MAC_002'', ''b2''), (''MAC_003'', ''b3'')]"
    by (simp add: two_centroids_env_def sample_env_def)
  from f(3) ap have b23: "bounds = ''b2'' \<or> bounds = ''b3''"
    by (auto simp: py_getitem_def split: if_splits)
  have "\<not> estimated two_centroids_env sample_resource ''b2'' ''0.57''"
    by (simp add: estimated_def two_centroids_env_def sample_env_def sample_resource_def py_index_def)
  then have b3: "bounds = ''b3''" using b23 f(4) cc dp by auto
  have "centroid_lonlat_of two_centroids_env ''b3'' = Inr (JArr [JNum ''-111.98'', JNum ''33.08''])"
    by (simp add: centroid_lonlat_of_def two_centroids_env_def sample_env_def py_getitem_def)
  then have "lon = JNum ''-111.98''" "lat = JNum ''33.08''"
    using f(5,6,7) b3 by (auto simp: py_index_def)
  then show ?thesis using f(8,9,10) ts dp cc by simp
qed

end
